theory Spec2Isabelle
  imports Main "HOL-Library.Char_ord" "HOL-Library.List_Lexorder" "HOL-Library.Sublist"
begin

section \<open>Strings and the regular expressions of the LLVM module\<close>

text \<open>
  JavaScript strings are modelled as \<^typ>\<open>string\<close>. All strings of the modelled code are
  ASCII, where the UTF-16 code-unit order of JavaScript's default \<open>sort\<close> and of \<open><\<close> on
  strings is the lexicographic order of \<^typ>\<open>char list\<close>.
\<close>

definition is_digit :: "char \<Rightarrow> bool" where
  "is_digit c = (c \<in> set ''0123456789'')"

text \<open>\<open>s.startsWith(p)\<close> and \<open>s.includes(p)\<close>.\<close>

definition startsWith :: "string \<Rightarrow> string \<Rightarrow> bool" where
  "startsWith s p = prefix p s"

fun str_includes :: "string \<Rightarrow> string \<Rightarrow> bool" where
  "str_includes [] p = (p = [])"
| "str_includes (c # cs) p = (prefix p (c # cs) \<or> str_includes cs p)"

text \<open>\<open>/^\d+/.exec(v)\<close>: the leading digits, \<open>None\<close> (JavaScript's \<open>null\<close>) when there are none.\<close>

definition re_major :: "string \<Rightarrow> string option" where
  "re_major v = (let d = takeWhile is_digit v in if d = [] then None else Some d)"

text \<open>\<open>/^\d+\.\d+/.exec(v)\<close>.\<close>

definition re_major_minor :: "string \<Rightarrow> string option" where
  "re_major_minor v =
     (let d1 = takeWhile is_digit v in
      if d1 = [] then None
      else (case dropWhile is_digit v of
              c # r \<Rightarrow>
                (let d2 = takeWhile is_digit r in
                 if c = CHR ''.'' \<and> d2 \<noteq> [] then Some (d1 @ ''.'' @ d2) else None)
            | [] \<Rightarrow> None))"

text \<open>\<open>/^\d+\.\d+\.\d+$/.test(v)\<close>.\<close>

definition re_specific :: "string \<Rightarrow> bool" where
  "re_specific v =
     (takeWhile is_digit v \<noteq> [] \<and>
      (case dropWhile is_digit v of
         c # r \<Rightarrow>
           c = CHR ''.'' \<and> takeWhile is_digit r \<noteq> [] \<and>
           (case dropWhile is_digit r of
              c' # r' \<Rightarrow> c' = CHR ''.'' \<and> r' \<noteq> [] \<and> list_all is_digit r'
            | [] \<Rightarrow> False)
       | [] \<Rightarrow> False))"

section \<open>The version registry\<close>

datatype error =
    UnsupportedTarget string string  \<comment> \<open>\<open>Unsupported target! (platform=.., version=..)\<close>\<close>
  | TypeError string                 \<comment> \<open>a failed non-null assertion, or semver's \<open>Invalid Version\<close>\<close>
  | Error string                     \<comment> \<open>any other \<open>Error\<close>, with its message\<close>
  | InstallFailed string string error
      \<comment> \<open>the \<open>Error\<close> with the message \<open>Failed to install <name> via <pip>: <err>.\<close>\<close>

text \<open>A JavaScript \<open>Set\<close> of strings, as the list of its elements in insertion order.\<close>

definition set_add :: "string list \<Rightarrow> string \<Rightarrow> string list" where
  "set_add s x = (if x \<in> set s then s else s @ [x])"

definition new_Set :: "string list \<Rightarrow> string list" where
  "new_Set xs = fold (\<lambda>x s. set_add s x) xs []"

text \<open>The loop of \<open>getVersions\<close>; a regular expression that does not match makes the
  non-null assertion \<open>exec(version)![0]\<close> fail.\<close>

fun getVersions_loop :: "string list \<Rightarrow> string list \<Rightarrow> error + string list" where
  "getVersions_loop [] versions = Inr versions"
| "getVersions_loop (version # rest) versions =
     (case re_major version of
        None \<Rightarrow> Inl (TypeError version)
      | Some a \<Rightarrow>
          (case re_major_minor version of
             None \<Rightarrow> Inl (TypeError version)
           | Some b \<Rightarrow> getVersions_loop rest (set_add (set_add versions a) b)))"

definition getVersions :: "string list \<Rightarrow> error + string list" where
  "getVersions specific = getVersions_loop specific (new_Set specific)"

text \<open>The array literal that the module passes to \<open>getVersions\<close>.\<close>

definition SPECIFIC :: "string list" where
  "SPECIFIC =
    [''3.5.0'', ''3.5.1'', ''3.5.2'', ''3.6.0'', ''3.6.1'', ''3.6.2'', ''3.7.0'', ''3.7.1'',
     ''3.8.0'', ''3.8.1'', ''3.9.0'', ''3.9.1'', ''4.0.0'', ''4.0.1'', ''5.0.0'', ''5.0.1'',
     ''5.0.2'', ''6.0.0'', ''6.0.1'', ''7.0.0'', ''7.0.1'', ''7.1.0'', ''8.0.0'', ''8.0.1'',
     ''9.0.0'', ''9.0.1'', ''10.0.0'', ''10.0.1'', ''11.0.0'', ''11.0.1'', ''11.1.0'',
     ''12.0.0'', ''12.0.1'']"

text \<open>\<open>VERSIONS\<close> is computed when the module is loaded; a \<open>TypeError\<close> there would stop
  the load, and \<open>VERSIONS_eq\<close> below shows that there is none.\<close>

definition VERSIONS :: "string list" where
  "VERSIONS = (case getVersions SPECIFIC of Inr vs \<Rightarrow> vs | Inl e \<Rightarrow> [])"

definition getSpecificVersions :: "string \<Rightarrow> string list" where
  "getSpecificVersions version =
     rev (sort (filter (\<lambda>v. re_specific v \<and> startsWith v version) VERSIONS))"

section \<open>Semantic-version comparison\<close>

text \<open>
  \<open>semverLte\<close> comes from the \<open>semver\<close> package, a dependency whose code is not part of the
  repository. It is modelled here for versions written \<open>MAJOR.MINOR.PATCH\<close> with an
  optional \<open>-PRERELEASE\<close>, the only forms the module builds, where numeric identifiers
  have no leading zero. For every other string the model answers with the \<open>TypeError\<close>
  that semver raises for a string it cannot parse; the further forms that semver accepts
  (a leading \<open>v\<close>, build metadata after \<open>+\<close>, blanks around the version) are not
  modelled, and neither is its bound on the size of a number. The order is semver's: the three numbers first, then a version with a
  prerelease before the same version without one, then the prerelease identifiers from
  left to right.
\<close>

record semver =
  major :: nat
  minor :: nat
  patch :: nat
  prerelease :: "string list"

definition digit_val :: "char \<Rightarrow> nat" where
  "digit_val c = of_char c - of_char CHR ''0''"

definition num_val :: "string \<Rightarrow> nat" where
  "num_val ds = foldl (\<lambda>n c. 10 * n + digit_val c) 0 ds"

definition is_numeric_id :: "string \<Rightarrow> bool" where
  "is_numeric_id ds = (ds \<noteq> [] \<and> list_all is_digit ds \<and> (ds = ''0'' \<or> hd ds \<noteq> CHR ''0''))"

definition is_id_char :: "char \<Rightarrow> bool" where
  "is_id_char c =
     (c \<in> set ''0123456789abcdefghijklmnopqrstuvwxyzABCDEFGHIJKLMNOPQRSTUVWXYZ-'')"

definition is_prerelease_id :: "string \<Rightarrow> bool" where
  "is_prerelease_id i =
     (i \<noteq> [] \<and> list_all is_id_char i \<and> (list_all is_digit i \<longrightarrow> is_numeric_id i))"

text \<open>\<open>s.split(c)\<close> for a one-character separator.\<close>

fun split_on :: "char \<Rightarrow> string \<Rightarrow> string list" where
  "split_on sep [] = [[]]"
| "split_on sep (c # cs) =
     (if c = sep then [] # split_on sep cs
      else (case split_on sep cs of
              w # ws \<Rightarrow> (c # w) # ws
            | [] \<Rightarrow> [[c]]))"

definition semver_parse :: "string \<Rightarrow> semver option" where
  "semver_parse v =
     (let core = takeWhile (\<lambda>c. c \<noteq> CHR ''-'') v;
          pre = dropWhile (\<lambda>c. c \<noteq> CHR ''-'') v
      in case split_on CHR ''.'' core of
           [a, b, c] \<Rightarrow>
             if is_numeric_id a \<and> is_numeric_id b \<and> is_numeric_id c \<and>
                (pre = [] \<or> list_all is_prerelease_id (split_on CHR ''.'' (tl pre)))
             then Some \<lparr>major = num_val a, minor = num_val b, patch = num_val c,
                        prerelease = (if pre = [] then [] else split_on CHR ''.'' (tl pre))\<rparr>
             else None
         | _ \<Rightarrow> None)"

text \<open>\<open>compareIdentifiers\<close>, as the test \<open>a < b\<close> of two different identifiers.\<close>

definition id_less :: "string \<Rightarrow> string \<Rightarrow> bool" where
  "id_less a b =
     (if list_all is_digit a \<and> list_all is_digit b then num_val a < num_val b
      else if list_all is_digit a then True
      else if list_all is_digit b then False
      else a < b)"

fun pre_lte :: "string list \<Rightarrow> string list \<Rightarrow> bool" where
  "pre_lte [] bs = True"
| "pre_lte (a # as) [] = False"
| "pre_lte (a # as) (b # bs) = (if a = b then pre_lte as bs else id_less a b)"

definition semver_lte :: "semver \<Rightarrow> semver \<Rightarrow> bool" where
  "semver_lte x y =
     (if (major x, minor x, patch x) \<noteq> (major y, minor y, patch y)
      then major x < major y \<or>
           (major x = major y \<and> (minor x < minor y \<or> (minor x = minor y \<and> patch x < patch y)))
      else if prerelease x \<noteq> [] \<and> prerelease y = [] then True
      else if prerelease x = [] \<and> prerelease y \<noteq> [] then False
      else pre_lte (prerelease x) (prerelease y))"

definition semverLte :: "string \<Rightarrow> string \<Rightarrow> error + bool" where
  "semverLte a b =
     (case semver_parse a of
        None \<Rightarrow> Inl (TypeError a)
      | Some x \<Rightarrow>
          (case semver_parse b of
             None \<Rightarrow> Inl (TypeError b)
           | Some y \<Rightarrow> Inr (semver_lte x y)))"

section \<open>Download URLs\<close>

definition getGitHubUrl :: "string \<Rightarrow> string \<Rightarrow> string \<Rightarrow> string" where
  "getGitHubUrl version pfx sfx =
     ''https://github.com/llvm/llvm-project/releases/download/llvmorg-'' @ version @ ''/'' @
     (pfx @ version @ sfx)"

definition getReleaseUrl :: "string \<Rightarrow> string \<Rightarrow> string \<Rightarrow> string" where
  "getReleaseUrl version pfx sfx =
     ''https://releases.llvm.org/'' @ version @ ''/'' @ (pfx @ version @ sfx)"

definition DARWIN_MISSING :: "string list" where
  "DARWIN_MISSING =
    [''3.5.1'', ''3.6.1'', ''3.6.2'', ''3.7.1'', ''3.8.1'', ''3.9.1'', ''6.0.1'', ''7.0.1'',
     ''7.1.0'', ''8.0.1'', ''11.0.1'', ''11.1.0'', ''12.0.1'']"

text \<open>The URL functions return \<open>Inr None\<close> for JavaScript's \<open>null\<close> and \<open>Inl\<close> for an
  exception.\<close>

definition getDarwinUrl :: "string \<Rightarrow> error + string option" where
  "getDarwinUrl version =
     (if version \<in> set DARWIN_MISSING then Inr None
      else
        let darwin = (if version = ''9.0.0'' then ''-darwin-apple'' else ''-apple-darwin'');
            pfx = ''clang+llvm-'';
            sfx = ''-x86_64'' @ darwin @ ''.tar.xz''
        in case semverLte version ''9.0.1'' of
             Inl e \<Rightarrow> Inl e
           | Inr True \<Rightarrow> Inr (Some (getReleaseUrl version pfx sfx))
           | Inr False \<Rightarrow> Inr (Some (getGitHubUrl version pfx sfx)))"

definition UBUNTU_RC :: "(string \<times> string) list" where
  "UBUNTU_RC = [(''12.0.1'', ''12.0.1-rc4'')]"

text \<open>The object literal \<open>UBUNTU\<close>, as the list of its own properties. The \<open>in\<close> operator
  of the source also finds the names inherited from \<open>Object.prototype\<close>; none of them is
  a version that semver accepts, so \<open>getLinuxUrl\<close> ends in the same \<open>TypeError\<close> for
  them whichever branch is taken.\<close>

definition UBUNTU :: "(string \<times> string) list" where
  "UBUNTU =
    [(''3.5.0'', ''-ubuntu-14.04''), (''3.5.1'', []), (''3.5.2'', ''-ubuntu-14.04''),
     (''3.6.0'', ''-ubuntu-14.04''), (''3.6.1'', ''-ubuntu-14.04''),
     (''3.6.2'', ''-ubuntu-14.04''), (''3.7.0'', ''-ubuntu-14.04''),
     (''3.7.1'', ''-ubuntu-14.04''), (''3.8.0'', ''-ubuntu-16.04''),
     (''3.8.1'', ''-ubuntu-16.04''), (''3.9.0'', ''-ubuntu-16.04''),
     (''3.9.1'', ''-ubuntu-16.04''), (''4.0.0'', ''-ubuntu-16.04''),
     (''5.0.0'', ''-ubuntu16.04''), (''5.0.1'', ''-ubuntu-16.04''),
     (''5.0.2'', ''-ubuntu-16.04''), (''6.0.0'', ''-ubuntu-16.04''),
     (''6.0.1'', ''-ubuntu-16.04''), (''7.0.0'', ''-ubuntu-16.04''),
     (''7.0.1'', ''-ubuntu-18.04''), (''7.1.0'', ''-ubuntu-14.04''),
     (''8.0.0'', ''-ubuntu-18.04''), (''9.0.0'', ''-ubuntu-18.04''),
     (''9.0.1'', ''-ubuntu-16.04''), (''10.0.0'', ''-ubuntu-18.04''),
     (''10.0.1'', ''-ubuntu-16.04''), (''11.0.0'', ''-ubuntu-20.04''),
     (''11.0.1'', ''-ubuntu-16.04''), (''11.1.0'', ''-ubuntu-16.04''),
     (''12.0.0'', ''-ubuntu-20.04''), (''12.0.1-rc4'', ''-ubuntu-21.04'')]"

definition MAX_UBUNTU :: string where
  "MAX_UBUNTU = ''12.0.1-rc4''"

text \<open>\<open>UBUNTU[key]\<close> inside a template string; a key that is absent would print as
  \<open>undefined\<close>.\<close>

definition UBUNTU_at :: "string \<Rightarrow> string" where
  "UBUNTU_at key = (case map_of UBUNTU key of Some tag \<Rightarrow> tag | None \<Rightarrow> ''undefined'')"

definition getLinuxUrl :: "string \<Rightarrow> error + string" where
  "getLinuxUrl versionGiven =
     (let version = (case map_of UBUNTU_RC versionGiven of Some rc \<Rightarrow> rc | None \<Rightarrow> versionGiven);
          ubuntu =
            (if str_includes version ''ubuntu'' then version
             else if version \<noteq> [] \<and> map_of UBUNTU version \<noteq> None then UBUNTU_at version
             else UBUNTU_at MAX_UBUNTU);
          pfx = ''clang+llvm-'';
          sfx =
            (if version = ''5.0.0'' then ''-linux-x86_64'' @ ubuntu @ ''.tar.xz''
             else ''-x86_64-linux-gnu'' @ ubuntu @ ''.tar.xz'')
      in case semverLte version ''9.0.1'' of
           Inl e \<Rightarrow> Inl e
         | Inr True \<Rightarrow> Inr (getReleaseUrl version pfx sfx)
         | Inr False \<Rightarrow> Inr (getGitHubUrl version pfx sfx))"

definition WIN32_MISSING :: "string list" where
  "WIN32_MISSING = [''10.0.1'']"

text \<open>\<open>isValidUrl\<close>, the HTTP existence check, is a parameter of the model.\<close>

definition getWin32Url :: "(string \<Rightarrow> bool) \<Rightarrow> string \<Rightarrow> error + string option" where
  "getWin32Url isValidUrl version =
     (if version \<in> set WIN32_MISSING then Inr None
      else
        let pfx = ''LLVM-'' in
        case semverLte version ''3.7.0'' of
          Inl e \<Rightarrow> Inl e
        | Inr lte370 \<Rightarrow>
            (let sfx = (if lte370 then ''-win32.exe'' else ''-win64.exe'') in
             case semverLte version ''9.0.1'' of
               Inl e \<Rightarrow> Inl e
             | Inr olderThan9_1 \<Rightarrow>
                 (let fallback = (olderThan9_1 \<and> \<not> isValidUrl (getReleaseUrl version pfx sfx))
                  in if fallback \<or> \<not> olderThan9_1
                     then Inr (Some (getGitHubUrl version pfx sfx))
                     else Inr (Some (getReleaseUrl version pfx sfx)))))"

definition getUrl :: "(string \<Rightarrow> bool) \<Rightarrow> string \<Rightarrow> string \<Rightarrow> error + string option" where
  "getUrl isValidUrl platform version =
     (if platform = ''darwin'' then getDarwinUrl version
      else if platform = ''linux'' then
        (case getLinuxUrl version of Inl e \<Rightarrow> Inl e | Inr url \<Rightarrow> Inr (Some url))
      else if platform = ''win32'' then getWin32Url isValidUrl version
      else Inr None)"

section \<open>The locator\<close>

text \<open>The \<open>for\<close> loop of \<open>getSpecificVersionAndUrl\<close> over the candidates that are left.\<close>

fun candidates_loop ::
  "(string \<Rightarrow> bool) \<Rightarrow> string \<Rightarrow> string \<Rightarrow> string list \<Rightarrow> error + string \<times> string" where
  "candidates_loop isValidUrl platform version [] = Inl (UnsupportedTarget platform version)"
| "candidates_loop isValidUrl platform version (specificVersion # rest) =
     (case getUrl isValidUrl platform specificVersion of
        Inl e \<Rightarrow> Inl e
      | Inr None \<Rightarrow> candidates_loop isValidUrl platform version rest
      | Inr (Some url) \<Rightarrow>
          if isValidUrl url then Inr (specificVersion, url)
          else candidates_loop isValidUrl platform version rest)"

definition getSpecificVersionAndUrl ::
  "(string \<Rightarrow> bool) \<Rightarrow> string \<Rightarrow> string \<Rightarrow> error + string \<times> string" where
  "getSpecificVersionAndUrl isValidUrl platform version =
     (if version \<notin> set VERSIONS then Inl (UnsupportedTarget platform version)
      else candidates_loop isValidUrl platform version (getSpecificVersions version))"

text \<open>A candidate is confirmed when it has a URL and the existence check accepts the URL.\<close>

definition confirmed :: "(string \<Rightarrow> bool) \<Rightarrow> string \<Rightarrow> string \<Rightarrow> bool" where
  "confirmed isValidUrl platform specificVersion =
     (case getUrl isValidUrl platform specificVersion of
        Inr (Some url) \<Rightarrow> isValidUrl url
      | _ \<Rightarrow> False)"

definition url_of :: "(string \<Rightarrow> bool) \<Rightarrow> string \<Rightarrow> string \<Rightarrow> string" where
  "url_of isValidUrl platform specificVersion =
     (case getUrl isValidUrl platform specificVersion of
        Inr (Some url) \<Rightarrow> url
      | _ \<Rightarrow> [])"

text \<open>The candidates in descending order, those below major version 10 and those from it.\<close>

definition DESC_BELOW_10 :: "string list" where
  "DESC_BELOW_10 =
    [''9.0.1'', ''9.0.0'', ''8.0.1'', ''8.0.0'', ''7.1.0'', ''7.0.1'', ''7.0.0'', ''6.0.1'',
     ''6.0.0'', ''5.0.2'', ''5.0.1'', ''5.0.0'', ''4.0.1'', ''4.0.0'', ''3.9.1'', ''3.9.0'',
     ''3.8.1'', ''3.8.0'', ''3.7.1'', ''3.7.0'', ''3.6.2'', ''3.6.1'', ''3.6.0'', ''3.5.2'',
     ''3.5.1'', ''3.5.0'']"

definition DESC_FROM_10 :: "string list" where
  "DESC_FROM_10 =
    [''12.0.1'', ''12.0.0'', ''11.1.0'', ''11.0.1'', ''11.0.0'', ''10.0.1'', ''10.0.0'']"


section \<open>Version resolution\<close>

text \<open>A version that may be \<open>undefined\<close> is a \<^typ>\<open>string option\<close>.\<close>

definition isVersionDefault :: "string option \<Rightarrow> bool" where
  "isVersionDefault version = (version = Some ''true'' \<or> version = None)"






text \<open>
  \<open>syncVersions\<close> changes \<open>opts\<close> in place; the model returns the result together with
  the options after the call. \<open>opts\<close> maps an input name to its value, \<open>None\<close> for
  \<open>undefined\<close>.
\<close>

definition syncVersions :: "(string \<rightharpoonup> string) \<Rightarrow> string list \<Rightarrow> bool \<times> (string \<rightharpoonup> string)" where
  "syncVersions opts tools =
     (let toolsInUse = filter (\<lambda>tool. opts tool \<noteq> None) tools;
          toolsNonDefaultVersion = filter (\<lambda>tool. \<not> isVersionDefault (opts tool)) toolsInUse;
          targetVersion =
            (case toolsNonDefaultVersion of t0 # rest \<Rightarrow> opts t0 | [] \<Rightarrow> Some ''true'')
      in if list_ex (\<lambda>tool. opts tool \<noteq> targetVersion) toolsNonDefaultVersion
         then (False, opts)
         else (True, fold (\<lambda>tool acc. acc(tool := targetVersion)) toolsInUse opts))"

text \<open>A tool is in use with an explicit version when its option is set and is not the
  sentinel.\<close>

definition explicit :: "(string \<rightharpoonup> string) \<Rightarrow> string \<Rightarrow> bool" where
  "explicit opts tool = (opts tool \<noteq> None \<and> opts tool \<noteq> Some ''true'')"

section \<open>Installation strategies\<close>

record installation_info =
  binDir :: string
  installDir :: "string option"

text \<open>
  What the host answers to the calls that leave the modelled code: the detection
  functions, the package-manager installers, \<open>setupBin\<close> and the steps of the pip
  installation. An installer either returns an \<open>InstallationInfo\<close> or throws; a step
  without a result is \<open>None\<close> when it completes and \<open>Some err\<close> when it throws.
  \<open>pip\<close> is the name, \<open>pip\<close> or \<open>pipx\<close>, that \<open>setupPipPackWithPython\<close> works out from
  its options and \<open>hasPipx\<close>; \<open>pipInstall\<close> is the outcome of the body of its \<open>try\<close>,
  and \<open>findBinDir\<close> the outcome of the statements after the installation.
\<close>

record host =
  host_platform :: string
  isUbuntu :: bool
  isArch :: bool
  hasDnf :: bool
  setupLLVMApt :: "error + installation_info"
  setupBin :: "error + installation_info"
  setupAptPack :: "string \<Rightarrow> error + installation_info"
  setupPacmanPack :: "string \<Rightarrow> error + installation_info"
  setupDnfPack :: "string \<Rightarrow> error + installation_info"
  pip :: string
  pipHasPackage :: "string \<Rightarrow> bool"
  pipInstall :: "string \<Rightarrow> error option"
  findBinDir :: "string \<Rightarrow> error + string"

text \<open>The functions return their result and the errors they have written to the log
  with \<open>info\<close>, oldest first. \<open>llvmBinaryDeps\<close> is memoized in the source; the model is
  the call that runs the raw function.\<close>

definition llvmBinaryDeps :: "host \<Rightarrow> int \<Rightarrow> error option" where
  "llvmBinaryDeps h majorVersion =
     (if isUbuntu h then
        (case (if majorVersion \<le> 10 then setupAptPack h ''libtinfo5''
               else setupAptPack h ''libtinfo-dev'') of
           Inl err \<Rightarrow> Some err
         | Inr done \<Rightarrow> None)
      else None)"

text \<open>The statements of \<open>setupLLVMOnly\<close> after the \<open>try\<close>: the archive download and the
  dependencies of the binaries.\<close>

definition setupLLVMOnly_download ::
  "host \<Rightarrow> int \<Rightarrow> error list \<Rightarrow> (error + installation_info) \<times> error list" where
  "setupLLVMOnly_download h majorVersion log =
     (case setupBin h of
        Inl err \<Rightarrow> (Inl err, log)
      | Inr installationInfo \<Rightarrow>
          (case llvmBinaryDeps h majorVersion of
             Some err \<Rightarrow> (Inl err, log)
           | None \<Rightarrow> (Inr installationInfo, log)))"

text \<open>\<open>majorVersion\<close> is what \<open>Number.parseInt\<close> reads from the coerced version; the
  coercion is not among the sources and the number is a parameter.\<close>

definition setupLLVMOnly :: "host \<Rightarrow> int \<Rightarrow> (error + installation_info) \<times> error list" where
  "setupLLVMOnly h majorVersion =
     (if isUbuntu h then
        (case setupLLVMApt h of
           Inr installationInfo \<Rightarrow> (Inr installationInfo, [])
         | Inl err \<Rightarrow> setupLLVMOnly_download h majorVersion [err])
      else setupLLVMOnly_download h majorVersion [])"

text \<open>\<open>setupPipPackSystem\<close> returns \<open>null\<close> (\<open>None\<close>) when no system package manager is
  known, and the promise of the installer otherwise.\<close>

definition setupPipPackSystem :: "host \<Rightarrow> string \<Rightarrow> (error + installation_info) option" where
  "setupPipPackSystem h name =
     (if host_platform h = ''linux'' then
        (if isArch h then Some (setupPacmanPack h (''python-'' @ name))
         else if hasDnf h then Some (setupDnfPack h (''python3-'' @ name))
         else if isUbuntu h then Some (setupAptPack h (''python3-'' @ name))
         else None)
      else None)"

text \<open>The statements of \<open>setupPipPackWithPython\<close> after the installation: the directory
  of the installed program is looked up and added to the path.\<close>

definition setupPipPack_finish ::
  "host \<Rightarrow> string \<Rightarrow> error list \<Rightarrow> (error + installation_info) \<times> error list" where
  "setupPipPack_finish h name log =
     (case findBinDir h name of
        Inl err \<Rightarrow> (Inl err, log)
      | Inr dir \<Rightarrow> (Inr \<lparr>binDir = dir, installDir = None\<rparr>, log))"

definition setupPipPackWithPython ::
  "host \<Rightarrow> string \<Rightarrow> (error + installation_info) \<times> error list" where
  "setupPipPackWithPython h name =
     (if pipHasPackage h name then
        (case pipInstall h name of
           None \<Rightarrow> setupPipPack_finish h name []
         | Some err \<Rightarrow>
             (case setupPipPackSystem h name of
                None \<Rightarrow> (Inl (InstallFailed name (pip h) err), [err])
              | Some (Inl e) \<Rightarrow> (Inl e, [err])
              | Some (Inr done) \<Rightarrow> setupPipPack_finish h name [err]))
      else
        (case setupPipPackSystem h name of
           None \<Rightarrow>
             (Inl (Error (''Failed to install '' @ name @ '' as it was not found via '' @ pip h @
                          '' or the system package manager'')), [])
         | Some (Inl e) \<Rightarrow> (Inl e, [])
         | Some (Inr done) \<Rightarrow> setupPipPack_finish h name []))"

section \<open>Work that is done once\<close>

text \<open>
  \<open>setupBrew\<close> keeps the directory of brew in the module variable \<open>binDir\<close>. The state
  of the model holds that variable and, as instrumentation, the number of times the
  installer script has been run. One call is answered by the host with the directory of
  the \<open>brew\<close> that \<open>which\<close> finds (\<open>dirname\<close> applied, \<open>None\<close> when there is none) and with
  the outcome of the download, of the installer script and of \<open>addPath\<close>.
\<close>

record brew_state =
  brew_binDir :: "string option"
  installer_runs :: nat

record brew_call =
  which_brew :: "string option"
  download :: "error option"
  installer :: "error option"
  addPath :: "error option"

definition getBrewPath :: "string \<Rightarrow> string \<Rightarrow> error + string" where
  "getBrewPath platform arch =
     (if platform = ''darwin'' then
        (if arch = ''arm64'' then Inr ''/opt/homebrew/bin/'' else Inr ''/usr/local/bin/'')
      else if platform = ''linux'' then Inr ''/home/linuxbrew/.linuxbrew/bin/''
      else Inl (Error ''Unsupported platform for brew''))"

text \<open>The result is \<open>Inr None\<close> for \<open>undefined\<close> and \<open>Inr (Some dir)\<close> for \<open>{ binDir }\<close>.\<close>

definition setupBrew ::
  "string \<Rightarrow> string \<Rightarrow> brew_call \<Rightarrow> brew_state \<Rightarrow> (error + string option) \<times> brew_state" where
  "setupBrew platform arch c s =
     (if platform \<notin> {''darwin'', ''linux''} then (Inr None, s)
      else case brew_binDir s of
        Some dir \<Rightarrow> (Inr (Some dir), s)
      | None \<Rightarrow>
          (case which_brew c of
             Some dir \<Rightarrow> (Inr (Some dir), s\<lparr>brew_binDir := Some dir\<rparr>)
           | None \<Rightarrow>
               (case download c of
                  Some err \<Rightarrow> (Inl err, s)
                | None \<Rightarrow>
                    (case installer c of
                       Some err \<Rightarrow> (Inl err, s\<lparr>installer_runs := installer_runs s + 1\<rparr>)
                     | None \<Rightarrow>
                         (case getBrewPath platform arch of
                            Inl err \<Rightarrow> (Inl err, s\<lparr>installer_runs := installer_runs s + 1\<rparr>)
                          | Inr dir \<Rightarrow>
                              (case addPath c of
                                 Some err \<Rightarrow>
                                   (Inl err, s\<lparr>brew_binDir := Some dir,
                                               installer_runs := installer_runs s + 1\<rparr>)
                               | None \<Rightarrow>
                                   (Inr (Some dir), s\<lparr>brew_binDir := Some dir,
                                                      installer_runs := installer_runs s + 1\<rparr>)))))))"

text \<open>Calls of \<open>setupBrew\<close> one after the other, each with the answers of the host at
  that time; the results are returned in the order of the calls.\<close>

fun setupBrew_calls ::
  "string \<Rightarrow> string \<Rightarrow> brew_call list \<Rightarrow> brew_state \<Rightarrow>
   (error + string option) list \<times> brew_state" where
  "setupBrew_calls platform arch [] s = ([], s)"
| "setupBrew_calls platform arch (c # cs) s =
     (case setupBrew platform arch c s of
        (r, s') \<Rightarrow>
          (case setupBrew_calls platform arch cs s' of (rs, s'') \<Rightarrow> (r # rs, s'')))"

text \<open>
  \<open>memoize\<close> comes from the \<open>micro-memoize\<close> package, a dependency whose code is not part
  of the repository. It is modelled from the documentation of the package, for calls
  that are awaited one after the other: the cache holds the \<open>maxSize\<close> most recently used
  keys with their results, most recent first, and \<open>maxSize\<close> is 1 unless the caller sets
  it; a hit moves the entry to the front; a miss calls the function and puts the new
  entry in front, dropping the entries beyond \<open>maxSize\<close>; with \<open>isPromise\<close>, the entry of
  a promise that is rejected is removed again. \<open>producer_calls\<close> is instrumentation, the
  keys the function was called with. The outcome of the function may depend on the
  state \<open>w\<close> of the world at the time of the call.
\<close>

record ('k, 'v) memo =
  cache :: "('k \<times> 'v) list"
  producer_calls :: "'k list"

definition memoized ::
  "nat \<Rightarrow> ('k \<Rightarrow> 'w \<Rightarrow> error + 'v) \<Rightarrow> 'k \<Rightarrow> 'w \<Rightarrow> ('k, 'v) memo \<Rightarrow> (error + 'v) \<times> ('k, 'v) memo" where
  "memoized maxSize fn key w m =
     (case map_of (cache m) key of
        Some v \<Rightarrow> (Inr v, m\<lparr>cache := (key, v) # filter (\<lambda>e. fst e \<noteq> key) (cache m)\<rparr>)
      | None \<Rightarrow>
          (case fn key w of
             Inr v \<Rightarrow>
               (Inr v, m\<lparr>cache := take maxSize ((key, v) # cache m),
                          producer_calls := producer_calls m @ [key]\<rparr>)
           | Inl err \<Rightarrow>
               (Inl err, m\<lparr>cache := take (maxSize - 1) (cache m),
                            producer_calls := producer_calls m @ [key]\<rparr>)))"

definition DEFAULT_MAX_SIZE :: nat where
  "DEFAULT_MAX_SIZE = 1"

text \<open>\<open>setupLLVMWithoutActivation\<close> is \<open>memoize(setupLLVMWithoutActivation_raw, { isPromise:
  true })\<close>; the key is the argument list \<open>(version, setupDir, arch)\<close>, and the outcome of
  the raw function is a parameter.\<close>

definition setupLLVMWithoutActivation ::
  "(string \<times> string \<times> string \<Rightarrow> 'w \<Rightarrow> error + installation_info) \<Rightarrow>
   string \<times> string \<times> string \<Rightarrow> 'w \<Rightarrow> (string \<times> string \<times> string, installation_info) memo \<Rightarrow>
   (error + installation_info) \<times> (string \<times> string \<times> string, installation_info) memo" where
  "setupLLVMWithoutActivation setupLLVMWithoutActivation_raw =
     memoized DEFAULT_MAX_SIZE setupLLVMWithoutActivation_raw"

section \<open>Activation of the environment\<close>

text \<open>\<open>process.env\<close> maps the name of a variable to its value.\<close>

type_synonym env = "string \<rightharpoonup> string"

text \<open>
  Modelled from the spec: \<open>addEnv\<close> of the package \<open>os-env\<close>, whose file is not among the
  sources. The spec describes it as \<open>setEnvironmentVariable(name, value)\<close> with a
  process-local and a persisted shell-profile effect, where the mutation of an
  environment variable is process-wide and the last writer wins. The model is the
  process-local effect.
\<close>

definition addEnv :: "string \<Rightarrow> string \<Rightarrow> env \<Rightarrow> env" where
  "addEnv name val e = e(name \<mapsto> val)"

text \<open>\<open>s.trim()\<close>.\<close>

definition is_space :: "char \<Rightarrow> bool" where
  "is_space c = (c \<in> set [CHR '' '', CHR 0x09, CHR 0x0A, CHR 0x0B, CHR 0x0C, CHR 0x0D])"

definition trim :: "string \<Rightarrow> string" where
  "trim s = rev (dropWhile is_space (rev (dropWhile is_space s)))"

text \<open>\<open>xcrun\<close> is the outcome of \<open>getExecOutput\<close>: the text \<open>stdout || stderr\<close>, or the
  exception, which is caught and logged.\<close>

definition setupMacOSSDK :: "string \<Rightarrow> error + string \<Rightarrow> env \<Rightarrow> env" where
  "setupMacOSSDK platform xcrun e =
     (if platform = ''darwin'' then
        (case xcrun of
           Inr sdkroot \<Rightarrow> (if sdkroot \<noteq> [] then addEnv ''SDKROOT'' (trim sdkroot) e else e)
         | Inl err \<Rightarrow> e)
      else e)"

text \<open>
  \<open>activateLLVM\<close> reads the two library paths, then starts the \<open>addEnv\<close> calls in the
  order of the array and \<open>setupMacOSSDK\<close> last. \<open>delimiter\<close> is \<open>path.delimiter\<close> and
  \<open>addExeExt\<close> the function of \<open>patha\<close>; both depend on the platform and are parameters.
  The \<open>updateAptAlternatives\<close> calls on Ubuntu do not touch the variables of the process
  and are left out.
\<close>

definition activateLLVM ::
  "string \<Rightarrow> (string \<Rightarrow> string) \<Rightarrow> string \<Rightarrow> error + string \<Rightarrow> string \<Rightarrow> env \<Rightarrow> env" where
  "activateLLVM delimiter addExeExt platform xcrun directory e =
     (let ld = (case e ''LD_LIBRARY_PATH'' of Some v \<Rightarrow> v | None \<Rightarrow> []);
          dyld = (case e ''DYLD_LIBRARY_PATH'' of Some v \<Rightarrow> v | None \<Rightarrow> [])
      in setupMacOSSDK platform xcrun
           (fold (\<lambda>(name, val). addEnv name val)
              [(''LLVM_PATH'', directory),
               (''LD_LIBRARY_PATH'', directory @ ''/lib'' @ delimiter @ ld),
               (''DYLD_LIBRARY_PATH'', directory @ ''/lib'' @ delimiter @ dyld),
               (''LDFLAGS'', ''-L'' @ [CHR 0x22] @ directory @ ''/lib'' @ [CHR 0x22]),
               (''CPPFLAGS'', ''-I'' @ [CHR 0x22] @ directory @ ''/include'' @ [CHR 0x22]),
               (''CC'', addExeExt (directory @ ''/bin/clang'')),
               (''CXX'', addExeExt (directory @ ''/bin/clang++'')),
               (''LIBRARY_PATH'', directory @ ''/lib'')]
              e))"

text \<open>\<open>entries.join("\n")\<close>.\<close>

fun join :: "string \<Rightarrow> string list \<Rightarrow> string" where
  "join sep [] = []"
| "join sep [x] = x"
| "join sep (x # y # ys) = x @ sep @ join sep (y # ys)"

text \<open>\<open>finalizeRC\<close> on the content of the rc file, \<open>None\<close> when the file does not exist.
  \<open>[...new Set(xs)]\<close> keeps the first occurrence of every entry.\<close>

definition finalizeRC :: "string option \<Rightarrow> string option" where
  "finalizeRC rc =
     (case rc of
        None \<Rightarrow> None
      | Some content \<Rightarrow>
          (let entries = split_on CHR 0x0A content;
               uniqueEntries = rev (new_Set (rev entries))
           in Some (join [CHR 0x0A] uniqueEntries)))"

section \<open>The registry and the candidates\<close>

lemma VERSIONS_eq:
  "VERSIONS =
    [''3.5.0'', ''3.5.1'', ''3.5.2'', ''3.6.0'', ''3.6.1'', ''3.6.2'', ''3.7.0'', ''3.7.1'',
     ''3.8.0'', ''3.8.1'', ''3.9.0'', ''3.9.1'', ''4.0.0'', ''4.0.1'', ''5.0.0'', ''5.0.1'',
     ''5.0.2'', ''6.0.0'', ''6.0.1'', ''7.0.0'', ''7.0.1'', ''7.1.0'', ''8.0.0'', ''8.0.1'',
     ''9.0.0'', ''9.0.1'', ''10.0.0'', ''10.0.1'', ''11.0.0'', ''11.0.1'', ''11.1.0'',
     ''12.0.0'', ''12.0.1'', ''3'', ''3.5'', ''3.6'', ''3.7'', ''3.8'', ''3.9'', ''4'', ''4.0'',
     ''5'', ''5.0'', ''6'', ''6.0'', ''7'', ''7.0'', ''7.1'', ''8'', ''8.0'', ''9'', ''9.0'',
     ''10'', ''10.0'', ''11'', ''11.0'', ''11.1'', ''12'', ''12.0'']"
  by code_simp

lemma specific_of_VERSIONS: "filter re_specific VERSIONS = SPECIFIC"
  unfolding VERSIONS_eq by code_simp

lemma sort_SPECIFIC: "rev (sort SPECIFIC) = DESC_BELOW_10 @ DESC_FROM_10"
  by code_simp

lemma distinct_SPECIFIC: "distinct SPECIFIC"
  by code_simp

lemma getSpecificVersions_filter:
  "getSpecificVersions version = filter (\<lambda>s. startsWith s version) (rev (sort SPECIFIC))"
proof -
  have "filter (\<lambda>v. re_specific v \<and> startsWith v version) VERSIONS =
        filter (\<lambda>s. startsWith s version) (filter re_specific VERSIONS)"
    by (simp add: conj_commute)
  then show ?thesis
    by (simp add: getSpecificVersions_def specific_of_VERSIONS filter_sort[symmetric] rev_filter)
qed

lemma getSpecificVersions_set:
  "set (getSpecificVersions version) =
   {s \<in> set VERSIONS. re_specific s \<and> startsWith s version}"
  by (auto simp: getSpecificVersions_def)

lemma getSpecificVersions_SPECIFIC: "s \<in> set (getSpecificVersions version) \<Longrightarrow> s \<in> set SPECIFIC"
  by (simp add: getSpecificVersions_filter)

lemma getSpecificVersions_descending:
  "sorted_wrt (\<lambda>a b. b < a) (getSpecificVersions version)"
proof -
  have "sorted_wrt (<) (sort SPECIFIC)"
    by (simp add: strict_sorted_iff distinct_SPECIFIC)
  then have "sorted_wrt (\<lambda>a b. b < a) (rev (sort SPECIFIC))"
    by (simp add: sorted_wrt_rev)
  then show ?thesis
    unfolding getSpecificVersions_filter by (rule sorted_wrt_filter)
qed

text \<open>Release order: within each of the two blocks the candidates are in descending
  semver order, and a supported prefix selects candidates of one block only.\<close>

lemma semverLte_iff:
  "(semverLte b a = Inr True) =
   (case semver_parse b of
      None \<Rightarrow> False
    | Some x \<Rightarrow> (case semver_parse a of None \<Rightarrow> False | Some y \<Rightarrow> semver_lte x y))"
  by (simp add: semverLte_def split: option.splits)

lemma recent_first_map:
  "sorted_wrt (\<lambda>a b. semverLte b a = Inr True) xs =
   sorted_wrt
     (\<lambda>x y. case y of
              None \<Rightarrow> False
            | Some x' \<Rightarrow> (case x of None \<Rightarrow> False | Some y' \<Rightarrow> semver_lte x' y'))
     (map semver_parse xs)"
  by (simp add: sorted_wrt_map semverLte_iff)

lemma DESC_BELOW_10_parse:
  "map semver_parse DESC_BELOW_10 =
    [Some \<lparr>major = 9, minor = 0, patch = 1, prerelease = []\<rparr>,
     Some \<lparr>major = 9, minor = 0, patch = 0, prerelease = []\<rparr>,
     Some \<lparr>major = 8, minor = 0, patch = 1, prerelease = []\<rparr>,
     Some \<lparr>major = 8, minor = 0, patch = 0, prerelease = []\<rparr>,
     Some \<lparr>major = 7, minor = 1, patch = 0, prerelease = []\<rparr>,
     Some \<lparr>major = 7, minor = 0, patch = 1, prerelease = []\<rparr>,
     Some \<lparr>major = 7, minor = 0, patch = 0, prerelease = []\<rparr>,
     Some \<lparr>major = 6, minor = 0, patch = 1, prerelease = []\<rparr>,
     Some \<lparr>major = 6, minor = 0, patch = 0, prerelease = []\<rparr>,
     Some \<lparr>major = 5, minor = 0, patch = 2, prerelease = []\<rparr>,
     Some \<lparr>major = 5, minor = 0, patch = 1, prerelease = []\<rparr>,
     Some \<lparr>major = 5, minor = 0, patch = 0, prerelease = []\<rparr>,
     Some \<lparr>major = 4, minor = 0, patch = 1, prerelease = []\<rparr>,
     Some \<lparr>major = 4, minor = 0, patch = 0, prerelease = []\<rparr>,
     Some \<lparr>major = 3, minor = 9, patch = 1, prerelease = []\<rparr>,
     Some \<lparr>major = 3, minor = 9, patch = 0, prerelease = []\<rparr>,
     Some \<lparr>major = 3, minor = 8, patch = 1, prerelease = []\<rparr>,
     Some \<lparr>major = 3, minor = 8, patch = 0, prerelease = []\<rparr>,
     Some \<lparr>major = 3, minor = 7, patch = 1, prerelease = []\<rparr>,
     Some \<lparr>major = 3, minor = 7, patch = 0, prerelease = []\<rparr>,
     Some \<lparr>major = 3, minor = 6, patch = 2, prerelease = []\<rparr>,
     Some \<lparr>major = 3, minor = 6, patch = 1, prerelease = []\<rparr>,
     Some \<lparr>major = 3, minor = 6, patch = 0, prerelease = []\<rparr>,
     Some \<lparr>major = 3, minor = 5, patch = 2, prerelease = []\<rparr>,
     Some \<lparr>major = 3, minor = 5, patch = 1, prerelease = []\<rparr>,
     Some \<lparr>major = 3, minor = 5, patch = 0, prerelease = []\<rparr>]"
  by code_simp

lemma DESC_FROM_10_parse:
  "map semver_parse DESC_FROM_10 =
    [Some \<lparr>major = 12, minor = 0, patch = 1, prerelease = []\<rparr>,
     Some \<lparr>major = 12, minor = 0, patch = 0, prerelease = []\<rparr>,
     Some \<lparr>major = 11, minor = 1, patch = 0, prerelease = []\<rparr>,
     Some \<lparr>major = 11, minor = 0, patch = 1, prerelease = []\<rparr>,
     Some \<lparr>major = 11, minor = 0, patch = 0, prerelease = []\<rparr>,
     Some \<lparr>major = 10, minor = 0, patch = 1, prerelease = []\<rparr>,
     Some \<lparr>major = 10, minor = 0, patch = 0, prerelease = []\<rparr>]"
  by code_simp

lemma DESC_BELOW_10_recent_first:
  "sorted_wrt (\<lambda>a b. semverLte b a = Inr True) DESC_BELOW_10"
  unfolding recent_first_map DESC_BELOW_10_parse by (simp add: semver_lte_def)

lemma DESC_FROM_10_recent_first:
  "sorted_wrt (\<lambda>a b. semverLte b a = Inr True) DESC_FROM_10"
  unfolding recent_first_map DESC_FROM_10_parse by (simp add: semver_lte_def)

lemma startsWith_hd: "startsWith s v \<Longrightarrow> v \<noteq> [] \<Longrightarrow> hd s = hd v"
  by (auto simp: startsWith_def prefix_def)

lemma VERSIONS_nonempty: "list_all (\<lambda>v. v \<noteq> []) VERSIONS"
  unfolding VERSIONS_eq by simp

lemma DESC_BELOW_10_hd: "list_all (\<lambda>s. hd s \<noteq> CHR ''1'') DESC_BELOW_10"
  unfolding DESC_BELOW_10_def by simp

lemma DESC_FROM_10_hd: "list_all (\<lambda>s. hd s = CHR ''1'') DESC_FROM_10"
  unfolding DESC_FROM_10_def by simp

lemma one_block:
  assumes "version \<in> set VERSIONS"
  shows "filter (\<lambda>s. startsWith s version) DESC_BELOW_10 = [] \<or>
         filter (\<lambda>s. startsWith s version) DESC_FROM_10 = []"
proof -
  have ne: "version \<noteq> []"
    using assms VERSIONS_nonempty by (simp add: list_all_iff)
  show ?thesis
  proof (cases "hd version = CHR ''1''")
    case True
    with ne have "\<forall>s\<in>set DESC_BELOW_10. \<not> startsWith s version"
      using DESC_BELOW_10_hd startsWith_hd by (fastforce simp: list_all_iff)
    then show ?thesis by (simp add: filter_empty_conv)
  next
    case False
    with ne have "\<forall>s\<in>set DESC_FROM_10. \<not> startsWith s version"
      using DESC_FROM_10_hd startsWith_hd by (fastforce simp: list_all_iff)
    then show ?thesis by (simp add: filter_empty_conv)
  qed
qed

lemma getSpecificVersions_recent_first:
  assumes "version \<in> set VERSIONS"
  shows "sorted_wrt (\<lambda>a b. semverLte b a = Inr True) (getSpecificVersions version)"
proof -
  let ?P = "\<lambda>s. startsWith s version"
  have eq: "getSpecificVersions version = filter ?P DESC_BELOW_10 @ filter ?P DESC_FROM_10"
    by (simp add: getSpecificVersions_filter sort_SPECIFIC)
  have a: "sorted_wrt (\<lambda>a b. semverLte b a = Inr True) (filter ?P DESC_BELOW_10)"
    using DESC_BELOW_10_recent_first by (rule sorted_wrt_filter)
  have b: "sorted_wrt (\<lambda>a b. semverLte b a = Inr True) (filter ?P DESC_FROM_10)"
    using DESC_FROM_10_recent_first by (rule sorted_wrt_filter)
  from one_block [OF assms] show ?thesis
    unfolding eq using a b by auto
qed

section \<open>The URL functions raise nothing on the registry\<close>

lemma SPECIFIC_parse: "list_all (\<lambda>v. semver_parse v \<noteq> None) SPECIFIC"
  by code_simp

lemma parse_9_0_1:
  "semver_parse ''9.0.1'' = Some \<lparr>major = 9, minor = 0, patch = 1, prerelease = []\<rparr>"
  by code_simp

lemma parse_3_7_0:
  "semver_parse ''3.7.0'' = Some \<lparr>major = 3, minor = 7, patch = 0, prerelease = []\<rparr>"
  by code_simp

lemma getDarwinUrl_SPECIFIC: "list_all (\<lambda>s. \<not> isl (getDarwinUrl s)) SPECIFIC"
  by code_simp

lemma getLinuxUrl_SPECIFIC: "list_all (\<lambda>s. \<not> isl (getLinuxUrl s)) SPECIFIC"
  by code_simp

lemma getWin32Url_parsed:
  assumes "semver_parse s \<noteq> None"
  shows "\<exists>r. getWin32Url p s = Inr r"
  using assms
  by (auto simp: getWin32Url_def semverLte_def parse_9_0_1 parse_3_7_0 Let_def)

lemma getUrl_SPECIFIC:
  assumes "s \<in> set SPECIFIC"
  shows "\<exists>r. getUrl p platform s = Inr r"
proof -
  have d: "\<exists>r. getDarwinUrl s = Inr r"
    using assms getDarwinUrl_SPECIFIC by (cases "getDarwinUrl s") (auto simp: list_all_iff)
  have l: "\<exists>r. getLinuxUrl s = Inr r"
    using assms getLinuxUrl_SPECIFIC by (cases "getLinuxUrl s") (auto simp: list_all_iff)
  have w: "\<exists>r. getWin32Url p s = Inr r"
    using assms SPECIFIC_parse by (intro getWin32Url_parsed) (simp add: list_all_iff)
  show ?thesis
    using d l w by (auto simp: getUrl_def)
qed

section \<open>The candidate loop\<close>

lemma candidates_loop_find:
  assumes "\<forall>c\<in>set cs. \<exists>r. getUrl p platform c = Inr r"
  shows "candidates_loop p platform version cs =
         (case find (confirmed p platform) cs of
            None \<Rightarrow> Inl (UnsupportedTarget platform version)
          | Some s \<Rightarrow> Inr (s, url_of p platform s))"
  using assms
proof (induction cs)
  case Nil
  then show ?case by simp
next
  case (Cons c cs)
  then obtain r where r: "getUrl p platform c = Inr r" by auto
  show ?case
  proof (cases r)
    case None
    with r Cons show ?thesis by (simp add: confirmed_def)
  next
    case (Some url)
    with r Cons show ?thesis by (simp add: confirmed_def url_of_def)
  qed
qed

lemma getSpecificVersionAndUrl_find:
  assumes "version \<in> set VERSIONS"
  shows "getSpecificVersionAndUrl p platform version =
         (case find (confirmed p platform) (getSpecificVersions version) of
            None \<Rightarrow> Inl (UnsupportedTarget platform version)
          | Some s \<Rightarrow> Inr (s, url_of p platform s))"
proof -
  have "\<forall>c\<in>set (getSpecificVersions version). \<exists>r. getUrl p platform c = Inr r"
    using getUrl_SPECIFIC getSpecificVersions_SPECIFIC by blast
  then show ?thesis
    using assms by (simp add: getSpecificVersionAndUrl_def candidates_loop_find)
qed

lemma candidates_loop_Inr:
  "candidates_loop p platform version cs = Inr (s, u) \<Longrightarrow>
   s \<in> set cs \<and> getUrl p platform s = Inr (Some u) \<and> p u"
  by (induction cs) (auto split: sum.splits option.splits if_splits)

lemma getSpecificVersions_9: "getSpecificVersions ''9'' = [''9.0.1'', ''9.0.0'']"
  by code_simp

section \<open>Claims about the artifact locator\<close>

text \<open>
  C1. For every supported version prefix (every element of \<open>VERSIONS\<close>), the candidates
  are exactly the \<open>major.minor.patch\<close> versions of the registry that start with the
  prefix, in strictly descending lexical order, which for a supported prefix is also the
  descending release order; the locator returns the first candidate of that list whose
  URL the existence check confirms, with that URL, and raises \<open>UnsupportedTarget\<close> when
  there is none. Requesting \<open>9\<close> enumerates \<open>9.0.1\<close>, then \<open>9.0.0\<close>.
\<close>

theorem C1_candidates_descending_first_confirmed:
  assumes "version \<in> set VERSIONS"
  shows "set (getSpecificVersions version) =
           {s \<in> set VERSIONS. re_specific s \<and> startsWith s version} \<and>
         sorted_wrt (\<lambda>a b. b < a) (getSpecificVersions version) \<and>
         sorted_wrt (\<lambda>a b. semverLte b a = Inr True) (getSpecificVersions version) \<and>
         getSpecificVersionAndUrl isValidUrl platform version =
           (case find (confirmed isValidUrl platform) (getSpecificVersions version) of
              None \<Rightarrow> Inl (UnsupportedTarget platform version)
            | Some s \<Rightarrow> Inr (s, url_of isValidUrl platform s)) \<and>
         getSpecificVersions ''9'' = [''9.0.1'', ''9.0.0'']"
  using assms getSpecificVersions_set getSpecificVersions_descending
    getSpecificVersions_recent_first getSpecificVersionAndUrl_find getSpecificVersions_9
  by blast

theorem C1_witness:
  "''9'' \<in> set VERSIONS \<and>
   getSpecificVersionAndUrl (\<lambda>url. True) ''darwin'' ''9'' =
     Inr (''9.0.1'',
          ''https://releases.llvm.org/9.0.1/clang+llvm-9.0.1-x86_64-apple-darwin.tar.xz'')"
proof -
  have h: "''9'' \<in> set VERSIONS"
    by (simp add: VERSIONS_eq)
  have c: "confirmed (\<lambda>url. True) ''darwin'' ''9.0.1''"
    by code_simp
  have u: "url_of (\<lambda>url. True) ''darwin'' ''9.0.1'' =
           ''https://releases.llvm.org/9.0.1/clang+llvm-9.0.1-x86_64-apple-darwin.tar.xz''"
    by code_simp
  from C1_candidates_descending_first_confirmed [OF h, of "\<lambda>url. True" "''darwin''"]
  have "getSpecificVersionAndUrl (\<lambda>url. True) ''darwin'' ''9'' =
          (case find (confirmed (\<lambda>url. True) ''darwin'') [''9.0.1'', ''9.0.0''] of
             None \<Rightarrow> Inl (UnsupportedTarget ''darwin'' ''9'')
           | Some s \<Rightarrow> Inr (s, url_of (\<lambda>url. True) ''darwin'' s))"
    by simp
  with h c u show ?thesis by simp
qed

text \<open>
  C2. A version of the Darwin exception set has no Darwin URL, the candidate loop passes
  over it, and the locator never returns it on \<open>darwin\<close>, whatever version was requested
  and whatever the existence check answers; the same holds for the Windows exception set
  on \<open>win32\<close>.
\<close>

theorem C2_missing_versions_never_returned:
  "(v \<in> set DARWIN_MISSING \<longrightarrow>
      getDarwinUrl v = Inr None \<and>
      candidates_loop isValidUrl ''darwin'' requested (v # rest) =
        candidates_loop isValidUrl ''darwin'' requested rest \<and>
      getSpecificVersionAndUrl isValidUrl ''darwin'' requested \<noteq> Inr (v, url)) \<and>
   (v \<in> set WIN32_MISSING \<longrightarrow>
      getWin32Url isValidUrl v = Inr None \<and>
      candidates_loop isValidUrl ''win32'' requested (v # rest) =
        candidates_loop isValidUrl ''win32'' requested rest \<and>
      getSpecificVersionAndUrl isValidUrl ''win32'' requested \<noteq> Inr (v, url))"
proof (intro conjI impI)
  assume m: "v \<in> set DARWIN_MISSING"
  then show d: "getDarwinUrl v = Inr None"
    by (simp add: getDarwinUrl_def)
  then show "candidates_loop isValidUrl ''darwin'' requested (v # rest) =
             candidates_loop isValidUrl ''darwin'' requested rest"
    by (simp add: getUrl_def)
  show "getSpecificVersionAndUrl isValidUrl ''darwin'' requested \<noteq> Inr (v, url)"
  proof
    assume "getSpecificVersionAndUrl isValidUrl ''darwin'' requested = Inr (v, url)"
    then have "candidates_loop isValidUrl ''darwin'' requested (getSpecificVersions requested)
               = Inr (v, url)"
      by (simp add: getSpecificVersionAndUrl_def split: if_splits)
    then have "getUrl isValidUrl ''darwin'' v = Inr (Some url)"
      by (simp add: candidates_loop_Inr)
    with d show False by (simp add: getUrl_def)
  qed
next
  assume m: "v \<in> set WIN32_MISSING"
  then show w: "getWin32Url isValidUrl v = Inr None"
    by (simp add: getWin32Url_def)
  then show "candidates_loop isValidUrl ''win32'' requested (v # rest) =
             candidates_loop isValidUrl ''win32'' requested rest"
    by (simp add: getUrl_def)
  show "getSpecificVersionAndUrl isValidUrl ''win32'' requested \<noteq> Inr (v, url)"
  proof
    assume "getSpecificVersionAndUrl isValidUrl ''win32'' requested = Inr (v, url)"
    then have "candidates_loop isValidUrl ''win32'' requested (getSpecificVersions requested)
               = Inr (v, url)"
      by (simp add: getSpecificVersionAndUrl_def split: if_splits)
    then have "getUrl isValidUrl ''win32'' v = Inr (Some url)"
      by (simp add: candidates_loop_Inr)
    with w show False by (simp add: getUrl_def)
  qed
qed

theorem C2_witness:
  "''12.0.1'' \<in> set DARWIN_MISSING \<and>
   getDarwinUrl ''12.0.1'' = Inr None \<and>
   getSpecificVersionAndUrl (\<lambda>url. True) ''darwin'' ''12.0.1'' \<noteq> Inr (''12.0.1'', []) \<and>
   ''10.0.1'' \<in> set WIN32_MISSING \<and>
   getWin32Url (\<lambda>url. True) ''10.0.1'' = Inr None \<and>
   getSpecificVersionAndUrl (\<lambda>url. True) ''win32'' ''10.0.1'' \<noteq> Inr (''10.0.1'', [])"
proof -
  have d: "''12.0.1'' \<in> set DARWIN_MISSING"
    by (simp add: DARWIN_MISSING_def)
  have w: "''10.0.1'' \<in> set WIN32_MISSING"
    by (simp add: WIN32_MISSING_def)
  show ?thesis
    using d w
      C2_missing_versions_never_returned
        [of "''12.0.1''" "\<lambda>url. True" "''12.0.1''" "[]" "[]"]
      C2_missing_versions_never_returned
        [of "''10.0.1''" "\<lambda>url. True" "''10.0.1''" "[]" "[]"]
    by blast
qed

text \<open>
  C7. The locator raises \<open>UnsupportedTarget\<close>, with the platform and the requested
  version, exactly when the requested version is not in \<open>VERSIONS\<close> or no candidate is
  confirmed; in every other case it returns a version and a URL. It raises nothing else.
\<close>

theorem C7_unsupported_target_iff_no_candidate:
  "(getSpecificVersionAndUrl isValidUrl platform version =
      Inl (UnsupportedTarget platform version)) =
     (version \<notin> set VERSIONS \<or>
      \<not> list_ex (confirmed isValidUrl platform) (getSpecificVersions version)) \<and>
   (\<exists>s url. getSpecificVersionAndUrl isValidUrl platform version = Inr (s, url)) =
     (version \<in> set VERSIONS \<and>
      list_ex (confirmed isValidUrl platform) (getSpecificVersions version))"
proof (cases "version \<in> set VERSIONS")
  case False
  then show ?thesis by (simp add: getSpecificVersionAndUrl_def)
next
  case True
  show ?thesis
  proof (cases "find (confirmed isValidUrl platform) (getSpecificVersions version)")
    case None
    then have "\<not> list_ex (confirmed isValidUrl platform) (getSpecificVersions version)"
      by (simp add: find_None_iff list_ex_iff)
    with True None show ?thesis
      by (simp add: getSpecificVersionAndUrl_find)
  next
    case (Some s)
    then have "list_ex (confirmed isValidUrl platform) (getSpecificVersions version)"
      by (auto simp: find_Some_iff list_ex_iff)
    with True Some show ?thesis
      by (simp add: getSpecificVersionAndUrl_find)
  qed
qed

theorem C7_witness:
  "''13'' \<notin> set VERSIONS \<and>
   getSpecificVersionAndUrl (\<lambda>url. True) ''linux'' ''13'' =
     Inl (UnsupportedTarget ''linux'' ''13'') \<and>
   ''12.0.1'' \<in> set VERSIONS \<and>
   \<not> list_ex (confirmed (\<lambda>url. True) ''darwin'') (getSpecificVersions ''12.0.1'') \<and>
   getSpecificVersionAndUrl (\<lambda>url. True) ''darwin'' ''12.0.1'' =
     Inl (UnsupportedTarget ''darwin'' ''12.0.1'')"
proof -
  have a: "''13'' \<notin> set VERSIONS"
    by (simp add: VERSIONS_eq)
  have b: "''12.0.1'' \<in> set VERSIONS"
    by (simp add: VERSIONS_eq)
  have c: "\<not> list_ex (confirmed (\<lambda>url. True) ''darwin'') (getSpecificVersions ''12.0.1'')"
    by code_simp
  show ?thesis
    using a b c
      C7_unsupported_target_iff_no_candidate [of "\<lambda>url. True" "''linux''" "''13''"]
      C7_unsupported_target_iff_no_candidate [of "\<lambda>url. True" "''darwin''" "''12.0.1''"]
    by blast
qed

section \<open>Claims about the Linux and Windows URLs\<close>

lemma getLinuxUrl_unfold:
  assumes "map_of UBUNTU_RC v = None" and "semverLte v ''9.0.1'' = Inr old"
  shows "getLinuxUrl v =
         Inr ((if old then ''https://releases.llvm.org/'' @ v
               else ''https://github.com/llvm/llvm-project/releases/download/llvmorg-'' @ v) @
              ''/clang+llvm-'' @ v @
              (if v = ''5.0.0'' then ''-linux-x86_64'' else ''-x86_64-linux-gnu'') @
              (if str_includes v ''ubuntu'' then v
               else if v \<noteq> [] \<and> map_of UBUNTU v \<noteq> None then UBUNTU_at v
               else UBUNTU_at MAX_UBUNTU) @
              ''.tar.xz'')"
  using assms by (simp add: getLinuxUrl_def Let_def getReleaseUrl_def getGitHubUrl_def)

lemma UBUNTU_at_MAX: "UBUNTU_at MAX_UBUNTU = ''-ubuntu-21.04''"
  by code_simp

lemma UBUNTU_no_empty_key: "map_of UBUNTU [] = None"
  by (simp add: UBUNTU_def)

lemma UBUNTU_5_0_0: "map_of UBUNTU ''5.0.0'' = Some ''-ubuntu16.04''"
  by (simp add: UBUNTU_def)

lemma UBUNTU_RC_cases: "map_of UBUNTU_RC v = Some rc \<Longrightarrow> v = ''12.0.1'' \<and> rc = ''12.0.1-rc4''"
  by (simp add: UBUNTU_RC_def split: if_splits)

lemma getLinuxUrl_12_0_1_rc4:
  "getLinuxUrl ''12.0.1-rc4'' =
   Inr ''https://github.com/llvm/llvm-project/releases/download/llvmorg-12.0.1-rc4/clang+llvm-12.0.1-rc4-x86_64-linux-gnu-ubuntu-21.04.tar.xz''"
  by code_simp

lemma getLinuxUrl_12_0_1: "getLinuxUrl ''12.0.1'' = getLinuxUrl ''12.0.1-rc4''"
  by code_simp

lemma SPECIFIC_no_ubuntu: "list_all (\<lambda>s. \<not> str_includes s ''ubuntu'') SPECIFIC"
  by code_simp

text \<open>
  C8. A Linux URL carries the tag that \<open>UBUNTU\<close> gives for the version when the version is
  a key of the table; a version that is no key (and neither contains \<open>ubuntu\<close> nor has a
  release-candidate override) gets the tag of \<open>MAX_UBUNTU\<close>, \<open>-ubuntu-21.04\<close>; and the
  only version with an override, \<open>12.0.1\<close>, gets the URL of \<open>12.0.1-rc4\<close>. No version of
  the registry contains \<open>ubuntu\<close>, so every candidate falls under one of the three cases.
\<close>

theorem C8_linux_url_tag:
  "(map_of UBUNTU_RC v = None \<and> \<not> str_includes v ''ubuntu'' \<and> map_of UBUNTU v = Some tag \<and>
    semverLte v ''9.0.1'' = Inr old \<longrightarrow>
      getLinuxUrl v =
        Inr ((if old then ''https://releases.llvm.org/'' @ v
              else ''https://github.com/llvm/llvm-project/releases/download/llvmorg-'' @ v) @
             ''/clang+llvm-'' @ v @
             (if v = ''5.0.0'' then ''-linux-x86_64'' else ''-x86_64-linux-gnu'') @
             tag @ ''.tar.xz'')) \<and>
   (map_of UBUNTU_RC v = None \<and> \<not> str_includes v ''ubuntu'' \<and> map_of UBUNTU v = None \<and>
    semverLte v ''9.0.1'' = Inr old \<longrightarrow>
      getLinuxUrl v =
        Inr ((if old then ''https://releases.llvm.org/'' @ v
              else ''https://github.com/llvm/llvm-project/releases/download/llvmorg-'' @ v) @
             ''/clang+llvm-'' @ v @ ''-x86_64-linux-gnu'' @ ''-ubuntu-21.04'' @ ''.tar.xz'') \<and>
      map_of UBUNTU MAX_UBUNTU = Some ''-ubuntu-21.04'') \<and>
   (map_of UBUNTU_RC v = Some rc \<longrightarrow>
      v = ''12.0.1'' \<and> rc = ''12.0.1-rc4'' \<and> getLinuxUrl v = getLinuxUrl rc \<and>
      getLinuxUrl v =
        Inr ''https://github.com/llvm/llvm-project/releases/download/llvmorg-12.0.1-rc4/clang+llvm-12.0.1-rc4-x86_64-linux-gnu-ubuntu-21.04.tar.xz'') \<and>
   (v \<in> set SPECIFIC \<longrightarrow> \<not> str_includes v ''ubuntu'')"
proof (intro conjI impI)
  assume a: "map_of UBUNTU_RC v = None \<and> \<not> str_includes v ''ubuntu'' \<and>
             map_of UBUNTU v = Some tag \<and> semverLte v ''9.0.1'' = Inr old"
  then have "v \<noteq> []"
    using UBUNTU_no_empty_key by auto
  with a show "getLinuxUrl v =
        Inr ((if old then ''https://releases.llvm.org/'' @ v
              else ''https://github.com/llvm/llvm-project/releases/download/llvmorg-'' @ v) @
             ''/clang+llvm-'' @ v @
             (if v = ''5.0.0'' then ''-linux-x86_64'' else ''-x86_64-linux-gnu'') @
             tag @ ''.tar.xz'')"
    by (simp add: getLinuxUrl_unfold UBUNTU_at_def)
next
  assume a: "map_of UBUNTU_RC v = None \<and> \<not> str_includes v ''ubuntu'' \<and>
             map_of UBUNTU v = None \<and> semverLte v ''9.0.1'' = Inr old"
  then have "v \<noteq> ''5.0.0''"
    using UBUNTU_5_0_0 by auto
  with a show "getLinuxUrl v =
        Inr ((if old then ''https://releases.llvm.org/'' @ v
              else ''https://github.com/llvm/llvm-project/releases/download/llvmorg-'' @ v) @
             ''/clang+llvm-'' @ v @ ''-x86_64-linux-gnu'' @ ''-ubuntu-21.04'' @ ''.tar.xz'')"
    by (simp add: getLinuxUrl_unfold UBUNTU_at_MAX)
  show "map_of UBUNTU MAX_UBUNTU = Some ''-ubuntu-21.04''"
    by code_simp
next
  assume "map_of UBUNTU_RC v = Some rc"
  then have vr: "v = ''12.0.1'' \<and> rc = ''12.0.1-rc4''"
    by (rule UBUNTU_RC_cases)
  then show "v = ''12.0.1''" and "rc = ''12.0.1-rc4''"
    by simp_all
  from vr show "getLinuxUrl v = getLinuxUrl rc"
    by (simp add: getLinuxUrl_12_0_1)
  from vr show "getLinuxUrl v =
        Inr ''https://github.com/llvm/llvm-project/releases/download/llvmorg-12.0.1-rc4/clang+llvm-12.0.1-rc4-x86_64-linux-gnu-ubuntu-21.04.tar.xz''"
    by (simp add: getLinuxUrl_12_0_1 getLinuxUrl_12_0_1_rc4)
next
  assume "v \<in> set SPECIFIC"
  then show "\<not> str_includes v ''ubuntu''"
    using SPECIFIC_no_ubuntu by (simp add: list_all_iff)
qed

theorem C8_witness:
  "getLinuxUrl ''9.0.0'' =
     Inr ''https://releases.llvm.org/9.0.0/clang+llvm-9.0.0-x86_64-linux-gnu-ubuntu-18.04.tar.xz'' \<and>
   map_of UBUNTU ''8.0.1'' = None \<and>
   getLinuxUrl ''8.0.1'' =
     Inr ''https://releases.llvm.org/8.0.1/clang+llvm-8.0.1-x86_64-linux-gnu-ubuntu-21.04.tar.xz'' \<and>
   map_of UBUNTU_RC ''12.0.1'' = Some ''12.0.1-rc4'' \<and>
   getLinuxUrl ''12.0.1'' =
     Inr ''https://github.com/llvm/llvm-project/releases/download/llvmorg-12.0.1-rc4/clang+llvm-12.0.1-rc4-x86_64-linux-gnu-ubuntu-21.04.tar.xz'' \<and>
   ''4.0.1'' \<in> set SPECIFIC \<and> \<not> str_includes ''4.0.1'' ''ubuntu''"
proof -
  have a: "map_of UBUNTU_RC ''9.0.0'' = None \<and> \<not> str_includes ''9.0.0'' ''ubuntu'' \<and>
           map_of UBUNTU ''9.0.0'' = Some ''-ubuntu-18.04'' \<and>
           semverLte ''9.0.0'' ''9.0.1'' = Inr True"
    by code_simp
  have b: "map_of UBUNTU_RC ''8.0.1'' = None \<and> \<not> str_includes ''8.0.1'' ''ubuntu'' \<and>
           map_of UBUNTU ''8.0.1'' = None \<and> semverLte ''8.0.1'' ''9.0.1'' = Inr True"
    by code_simp
  have c: "map_of UBUNTU_RC ''12.0.1'' = Some ''12.0.1-rc4''"
    by (simp add: UBUNTU_RC_def)
  have a': "getLinuxUrl ''9.0.0'' =
     Inr ''https://releases.llvm.org/9.0.0/clang+llvm-9.0.0-x86_64-linux-gnu-ubuntu-18.04.tar.xz''"
    using a C8_linux_url_tag [of "''9.0.0''" "''-ubuntu-18.04''" True] by simp
  have b': "getLinuxUrl ''8.0.1'' =
     Inr ''https://releases.llvm.org/8.0.1/clang+llvm-8.0.1-x86_64-linux-gnu-ubuntu-21.04.tar.xz''"
    using b C8_linux_url_tag [of "''8.0.1''" _ True] by simp
  have c': "getLinuxUrl ''12.0.1'' =
     Inr ''https://github.com/llvm/llvm-project/releases/download/llvmorg-12.0.1-rc4/clang+llvm-12.0.1-rc4-x86_64-linux-gnu-ubuntu-21.04.tar.xz''"
    using c C8_linux_url_tag [of "''12.0.1''" _ _ "''12.0.1-rc4''"] by blast
  have d: "''4.0.1'' \<in> set SPECIFIC"
    by (simp add: SPECIFIC_def)
  have d': "\<not> str_includes ''4.0.1'' ''ubuntu''"
    using d C8_linux_url_tag [of "''4.0.1''"] by blast
  from a' b b' c c' d d' show ?thesis by blast
qed




section \<open>Claims about version resolution\<close>











lemma fold_assign:
  "fold (\<lambda>tool acc. acc(tool := x)) ts opts = (\<lambda>tool. if tool \<in> set ts then x else opts tool)"
  by (induction ts arbitrary: opts) (auto simp: fun_eq_iff)

lemma toolsNonDefaultVersion_eq:
  "filter (\<lambda>tool. \<not> isVersionDefault (opts tool)) (filter (\<lambda>tool. opts tool \<noteq> None) tools) =
   filter (explicit opts) tools"
  by (induction tools) (auto simp: explicit_def isVersionDefault_def)

lemma targetVersion_eq:
  "(case filter P tools of t0 # rest \<Rightarrow> f t0 | [] \<Rightarrow> d) =
   (case find P tools of Some t \<Rightarrow> f t | None \<Rightarrow> d)"
  by (induction tools) auto

lemma syncVersions_unfold:
  "syncVersions opts tools =
     (if \<exists>tool\<in>set tools. explicit opts tool \<and>
           opts tool \<noteq> (case find (explicit opts) tools of Some t \<Rightarrow> opts t | None \<Rightarrow> Some ''true'')
      then (False, opts)
      else (True, \<lambda>tool. if tool \<in> set tools \<and> opts tool \<noteq> None
                           then (case find (explicit opts) tools of
                                   Some t \<Rightarrow> opts t
                                 | None \<Rightarrow> Some ''true'')
                           else opts tool))"
proof -
  let ?target = "case find (explicit opts) tools of Some t \<Rightarrow> opts t | None \<Rightarrow> Some ''true''"
  have t: "(case filter (explicit opts) tools of t0 # rest \<Rightarrow> opts t0 | [] \<Rightarrow> Some ''true'') =
           ?target"
    by (rule targetVersion_eq)
  have c: "list_ex (\<lambda>tool. opts tool \<noteq> ?target) (filter (explicit opts) tools) =
           (\<exists>tool\<in>set tools. explicit opts tool \<and> opts tool \<noteq> ?target)"
    unfolding list_ex_iff by auto
  have f: "fold (\<lambda>tool acc. acc(tool := ?target)) (filter (\<lambda>tool. opts tool \<noteq> None) tools) opts =
           (\<lambda>tool. if tool \<in> set tools \<and> opts tool \<noteq> None then ?target else opts tool)"
    unfolding fold_assign by (rule ext) simp
  show ?thesis
    unfolding syncVersions_def Let_def toolsNonDefaultVersion_eq t c f by (rule refl)
qed

lemma mismatch_iff:
  "(\<exists>tool\<in>set tools. explicit opts tool \<and>
       opts tool \<noteq> (case find (explicit opts) tools of Some t \<Rightarrow> opts t | None \<Rightarrow> Some ''true'')) =
   (\<exists>a\<in>set tools. \<exists>b\<in>set tools. explicit opts a \<and> explicit opts b \<and> opts a \<noteq> opts b)"
proof (cases "find (explicit opts) tools")
  case None
  then show ?thesis
    by (auto simp: find_None_iff)
next
  case (Some t)
  then have t: "t \<in> set tools" "explicit opts t"
    by (auto simp: find_Some_iff)
  show ?thesis
  proof
    assume "\<exists>tool\<in>set tools. explicit opts tool \<and>
       opts tool \<noteq> (case find (explicit opts) tools of Some t \<Rightarrow> opts t | None \<Rightarrow> Some ''true'')"
    with Some t show "\<exists>a\<in>set tools. \<exists>b\<in>set tools. explicit opts a \<and> explicit opts b \<and> opts a \<noteq> opts b"
      by auto
  next
    assume "\<exists>a\<in>set tools. \<exists>b\<in>set tools. explicit opts a \<and> explicit opts b \<and> opts a \<noteq> opts b"
    then obtain a b where ab: "a \<in> set tools" "b \<in> set tools" "explicit opts a"
      "explicit opts b" "opts a \<noteq> opts b"
      by blast
    then have "opts a \<noteq> opts t \<or> opts b \<noteq> opts t"
      by auto
    with ab Some show "\<exists>tool\<in>set tools. explicit opts tool \<and>
       opts tool \<noteq> (case find (explicit opts) tools of Some t \<Rightarrow> opts t | None \<Rightarrow> Some ''true'')"
      by auto
  qed
qed

text \<open>
  C10. \<open>syncVersions\<close> returns false exactly when two tools of the list that are in use
  have explicit versions that differ, and then leaves the options as they were. When it
  returns true, every tool of the list that is in use has the target version afterwards,
  the version of the first tool of the list with an explicit version, or the sentinel
  \<open>true\<close> when no tool in use has one, and every other option is unchanged.
\<close>

theorem C10_syncVersions:
  "fst (syncVersions opts tools) =
     (\<not> (\<exists>a\<in>set tools. \<exists>b\<in>set tools. explicit opts a \<and> explicit opts b \<and> opts a \<noteq> opts b)) \<and>
   (fst (syncVersions opts tools) \<longrightarrow>
      snd (syncVersions opts tools) =
        (\<lambda>tool. if tool \<in> set tools \<and> opts tool \<noteq> None
                then (case find (explicit opts) tools of
                        Some t \<Rightarrow> opts t
                      | None \<Rightarrow> Some ''true'')
                else opts tool)) \<and>
   (\<not> fst (syncVersions opts tools) \<longrightarrow> snd (syncVersions opts tools) = opts)"
proof (cases "\<exists>tool\<in>set tools. explicit opts tool \<and>
           opts tool \<noteq> (case find (explicit opts) tools of Some t \<Rightarrow> opts t | None \<Rightarrow> Some ''true'')")
  case True
  then have r: "syncVersions opts tools = (False, opts)"
    by (simp only: syncVersions_unfold if_True)
  from True have m: "\<exists>a\<in>set tools. \<exists>b\<in>set tools. explicit opts a \<and> explicit opts b \<and> opts a \<noteq> opts b"
    unfolding mismatch_iff .
  show ?thesis
    unfolding r fst_conv snd_conv using m by blast
next
  case False
  then have r: "syncVersions opts tools =
      (True, \<lambda>tool. if tool \<in> set tools \<and> opts tool \<noteq> None
                    then (case find (explicit opts) tools of
                            Some t \<Rightarrow> opts t
                          | None \<Rightarrow> Some ''true'')
                    else opts tool)"
    by (simp only: syncVersions_unfold if_False)
  from False have m: "\<not> (\<exists>a\<in>set tools. \<exists>b\<in>set tools. explicit opts a \<and> explicit opts b \<and> opts a \<noteq> opts b)"
    unfolding mismatch_iff .
  show ?thesis
    unfolding r fst_conv snd_conv using m by blast
qed

theorem C10_witness:
  "syncVersions [''llvm'' \<mapsto> ''true'', ''clangtidy'' \<mapsto> ''15'', ''clangformat'' \<mapsto> ''15'']
     [''llvm'', ''clangtidy'', ''clangformat''] =
     (True, [''llvm'' \<mapsto> ''15'', ''clangtidy'' \<mapsto> ''15'', ''clangformat'' \<mapsto> ''15'']) \<and>
   syncVersions [''llvm'' \<mapsto> ''14'', ''clangtidy'' \<mapsto> ''15''] [''llvm'', ''clangtidy''] =
     (False, [''llvm'' \<mapsto> ''14'', ''clangtidy'' \<mapsto> ''15''])"
proof -
  let ?o1 = "[''llvm'' \<mapsto> ''true'', ''clangtidy'' \<mapsto> ''15'', ''clangformat'' \<mapsto> ''15'']"
  let ?t1 = "[''llvm'', ''clangtidy'', ''clangformat'']"
  let ?o2 = "[''llvm'' \<mapsto> ''14'', ''clangtidy'' \<mapsto> ''15'']"
  let ?t2 = "[''llvm'', ''clangtidy'']"
  have a: "\<not> (\<exists>a\<in>set ?t1. \<exists>b\<in>set ?t1. explicit ?o1 a \<and> explicit ?o1 b \<and> ?o1 a \<noteq> ?o1 b)"
    by (simp add: explicit_def)
  have b: "\<exists>a\<in>set ?t2. \<exists>b\<in>set ?t2. explicit ?o2 a \<and> explicit ?o2 b \<and> ?o2 a \<noteq> ?o2 b"
    by (simp add: explicit_def)
  have f: "find (explicit ?o1) ?t1 = Some ''clangtidy''"
    by (simp add: explicit_def)
  have 1: "fst (syncVersions ?o1 ?t1)"
    using a C10_syncVersions [of ?o1 ?t1] by blast
  then have "snd (syncVersions ?o1 ?t1) =
        (\<lambda>tool. if tool \<in> set ?t1 \<and> ?o1 tool \<noteq> None
                then (case find (explicit ?o1) ?t1 of Some t \<Rightarrow> ?o1 t | None \<Rightarrow> Some ''true'')
                else ?o1 tool)"
    using C10_syncVersions [of ?o1 ?t1] by blast
  then have 2: "snd (syncVersions ?o1 ?t1) =
        [''llvm'' \<mapsto> ''15'', ''clangtidy'' \<mapsto> ''15'', ''clangformat'' \<mapsto> ''15'']"
    unfolding f by (auto simp: fun_eq_iff)
  have 3: "\<not> fst (syncVersions ?o2 ?t2)"
    using b C10_syncVersions [of ?o2 ?t2] by blast
  then have 4: "snd (syncVersions ?o2 ?t2) = ?o2"
    using C10_syncVersions [of ?o2 ?t2] by blast
  from 1 2 3 4 show ?thesis
    by (simp add: prod_eq_iff)
qed

section \<open>Claims about the fallback between strategies\<close>

lemma setupLLVMOnly_download_log:
  "setupLLVMOnly_download h majorVersion log = (fst (setupLLVMOnly_download h majorVersion []), log)"
  by (simp add: setupLLVMOnly_download_def split: sum.splits option.splits)

lemma setupLLVMOnly_fallback:
  assumes "\<not> isUbuntu h \<or> setupLLVMApt h = Inl err"
    and "fst (setupLLVMOnly_download h majorVersion []) = Inr info"
  shows "setupLLVMOnly h majorVersion = (Inr info, if isUbuntu h then [err] else [])"
proof (cases "isUbuntu h")
  case True
  with assms(1) have "setupLLVMOnly h majorVersion = setupLLVMOnly_download h majorVersion [err]"
    by (simp add: setupLLVMOnly_def)
  with True assms(2) show ?thesis
    using setupLLVMOnly_download_log [of h majorVersion "[err]"] by simp
next
  case False
  then have "setupLLVMOnly h majorVersion = setupLLVMOnly_download h majorVersion []"
    by (simp add: setupLLVMOnly_def)
  with False assms(2) show ?thesis
    using setupLLVMOnly_download_log [of h majorVersion "[]"] by simp
qed

lemma setupLLVMOnly_download_succeeds:
  "(fst (setupLLVMOnly_download h majorVersion []) = Inr info) =
   (setupBin h = Inr info \<and> llvmBinaryDeps h majorVersion = None)"
  by (auto simp: setupLLVMOnly_download_def split: sum.splits option.splits)

lemma setupLLVMOnly_fatal:
  "(\<exists>e. fst (setupLLVMOnly h majorVersion) = Inl e) =
   ((\<not> isUbuntu h \<or> isl (setupLLVMApt h)) \<and>
    isl (fst (setupLLVMOnly_download h majorVersion [])))"
proof (cases "isUbuntu h")
  case True
  show ?thesis
  proof (cases "setupLLVMApt h")
    case (Inl err)
    with True have "setupLLVMOnly h majorVersion = setupLLVMOnly_download h majorVersion [err]"
      by (simp add: setupLLVMOnly_def)
    with True Inl show ?thesis
      using setupLLVMOnly_download_log [of h majorVersion "[err]"]
      by (cases "fst (setupLLVMOnly_download h majorVersion [])") auto
  next
    case (Inr info)
    with True show ?thesis by (simp add: setupLLVMOnly_def)
  qed
next
  case False
  then have "setupLLVMOnly h majorVersion = setupLLVMOnly_download h majorVersion []"
    by (simp add: setupLLVMOnly_def)
  with False show ?thesis
    by (cases "fst (setupLLVMOnly_download h majorVersion [])") auto
qed

lemma setupPipPackSystem_manager:
  "(host_platform h = ''linux'' \<and> isArch h \<longrightarrow>
      setupPipPackSystem h name = Some (setupPacmanPack h (''python-'' @ name))) \<and>
   (host_platform h = ''linux'' \<and> \<not> isArch h \<and> hasDnf h \<longrightarrow>
      setupPipPackSystem h name = Some (setupDnfPack h (''python3-'' @ name))) \<and>
   (host_platform h = ''linux'' \<and> \<not> isArch h \<and> \<not> hasDnf h \<and> isUbuntu h \<longrightarrow>
      setupPipPackSystem h name = Some (setupAptPack h (''python3-'' @ name))) \<and>
   (host_platform h \<noteq> ''linux'' \<or> (\<not> isArch h \<and> \<not> hasDnf h \<and> \<not> isUbuntu h) \<longrightarrow>
      setupPipPackSystem h name = None)"
  by (simp add: setupPipPackSystem_def)

lemma setupPipPack_not_found:
  assumes "\<not> pipHasPackage h name" and "setupPipPackSystem h name = Some (Inr done)"
    and "findBinDir h name = Inr dir"
  shows "setupPipPackWithPython h name = (Inr \<lparr>binDir = dir, installDir = None\<rparr>, [])"
  using assms by (simp add: setupPipPackWithPython_def setupPipPack_finish_def)

lemma setupPipPack_failed:
  assumes "pipHasPackage h name" and "pipInstall h name = Some err"
    and "setupPipPackSystem h name = Some (Inr done)" and "findBinDir h name = Inr dir"
  shows "setupPipPackWithPython h name = (Inr \<lparr>binDir = dir, installDir = None\<rparr>, [err])"
  using assms by (simp add: setupPipPackWithPython_def setupPipPack_finish_def)

lemma setupPipPack_exhausted:
  "(\<not> pipHasPackage h name \<and> setupPipPackSystem h name = None \<longrightarrow>
      setupPipPackWithPython h name =
        (Inl (Error (''Failed to install '' @ name @ '' as it was not found via '' @ pip h @
                     '' or the system package manager'')), [])) \<and>
   (pipHasPackage h name \<and> pipInstall h name = Some err \<and> setupPipPackSystem h name = None \<longrightarrow>
      setupPipPackWithPython h name = (Inl (InstallFailed name (pip h) err), [err])) \<and>
   ((\<not> pipHasPackage h name \<or> pipInstall h name = Some err) \<and>
    setupPipPackSystem h name = Some (Inl e) \<longrightarrow>
      fst (setupPipPackWithPython h name) = Inl e)"
  by (auto simp: setupPipPackWithPython_def)

lemma setupPipPack_after_install:
  assumes "(pipHasPackage h name \<and> pipInstall h name = None) \<or>
           setupPipPackSystem h name = Some (Inr done)"
    and "findBinDir h name = Inl e"
  shows "fst (setupPipPackWithPython h name) = Inl e"
  using assms
  by (cases "pipInstall h name")
     (auto simp: setupPipPackWithPython_def setupPipPack_finish_def)

lemma setupPipPack_fatal:
  "(\<exists>e. fst (setupPipPackWithPython h name) = Inl e) =
   (((\<not> pipHasPackage h name \<or> pipInstall h name \<noteq> None) \<and>
     (\<forall>done. setupPipPackSystem h name \<noteq> Some (Inr done))) \<or>
    isl (findBinDir h name))"
proof (cases "setupPipPackSystem h name")
  case None
  then show ?thesis
    by (cases "pipInstall h name"; cases "findBinDir h name")
       (auto simp: setupPipPackWithPython_def setupPipPack_finish_def)
next
  case (Some r)
  then show ?thesis
    by (cases r; cases "pipInstall h name"; cases "findBinDir h name")
       (auto simp: setupPipPackWithPython_def setupPipPack_finish_def)
qed

text \<open>
  C6, as amended. In \<open>setupLLVMOnly\<close> the first strategy is the system package manager
  and the second the archive download, \<open>setupBin\<close> followed by the dependencies of the
  binaries. When the first is not used (the host is not Ubuntu) or throws, and the second
  succeeds, the result is the installation of the archive and no error; the error of the
  package manager is in the log and nowhere else. The function throws exactly when the
  first strategy was not used or threw and the second threw. In
  \<open>setupPipPackWithPython\<close>, a package that pip does not find and a pip installation that
  throws both fall back to the system package manager of the host: \<open>pacman\<close> on Arch,
  else \<open>dnf\<close> where it is present, else \<open>apt\<close> on Ubuntu, and none outside Linux. The
  function throws exactly when the chain is exhausted, that is, pip did not install the
  package and the system package manager is absent or throws, or when the lookup of the
  directory after the installation throws.
\<close>

theorem C6_failures_fall_back:
  "((\<not> isUbuntu h \<or> setupLLVMApt h = Inl err) \<and>
    fst (setupLLVMOnly_download h majorVersion []) = Inr info \<longrightarrow>
      setupLLVMOnly h majorVersion = (Inr info, if isUbuntu h then [err] else [])) \<and>
   (fst (setupLLVMOnly_download h majorVersion []) = Inr info) =
     (setupBin h = Inr info \<and> llvmBinaryDeps h majorVersion = None) \<and>
   (\<exists>e. fst (setupLLVMOnly h majorVersion) = Inl e) =
     ((\<not> isUbuntu h \<or> isl (setupLLVMApt h)) \<and>
      isl (fst (setupLLVMOnly_download h majorVersion []))) \<and>
   (host_platform h = ''linux'' \<and> isArch h \<longrightarrow>
      setupPipPackSystem h name = Some (setupPacmanPack h (''python-'' @ name))) \<and>
   (host_platform h = ''linux'' \<and> \<not> isArch h \<and> hasDnf h \<longrightarrow>
      setupPipPackSystem h name = Some (setupDnfPack h (''python3-'' @ name))) \<and>
   (host_platform h = ''linux'' \<and> \<not> isArch h \<and> \<not> hasDnf h \<and> isUbuntu h \<longrightarrow>
      setupPipPackSystem h name = Some (setupAptPack h (''python3-'' @ name))) \<and>
   (host_platform h \<noteq> ''linux'' \<or> (\<not> isArch h \<and> \<not> hasDnf h \<and> \<not> isUbuntu h) \<longrightarrow>
      setupPipPackSystem h name = None) \<and>
   (\<not> pipHasPackage h name \<and> setupPipPackSystem h name = Some (Inr done) \<and>
    findBinDir h name = Inr dir \<longrightarrow>
      setupPipPackWithPython h name = (Inr \<lparr>binDir = dir, installDir = None\<rparr>, [])) \<and>
   (pipHasPackage h name \<and> pipInstall h name = Some err \<and>
    setupPipPackSystem h name = Some (Inr done) \<and> findBinDir h name = Inr dir \<longrightarrow>
      setupPipPackWithPython h name = (Inr \<lparr>binDir = dir, installDir = None\<rparr>, [err])) \<and>
   (\<not> pipHasPackage h name \<and> setupPipPackSystem h name = None \<longrightarrow>
      setupPipPackWithPython h name =
        (Inl (Error (''Failed to install '' @ name @ '' as it was not found via '' @ pip h @
                     '' or the system package manager'')), [])) \<and>
   (pipHasPackage h name \<and> pipInstall h name = Some err \<and> setupPipPackSystem h name = None \<longrightarrow>
      setupPipPackWithPython h name = (Inl (InstallFailed name (pip h) err), [err])) \<and>
   ((\<not> pipHasPackage h name \<or> pipInstall h name = Some err) \<and>
    setupPipPackSystem h name = Some (Inl e) \<longrightarrow>
      fst (setupPipPackWithPython h name) = Inl e) \<and>
   (((pipHasPackage h name \<and> pipInstall h name = None) \<or>
     setupPipPackSystem h name = Some (Inr done)) \<and> findBinDir h name = Inl e \<longrightarrow>
      fst (setupPipPackWithPython h name) = Inl e) \<and>
   (\<exists>e. fst (setupPipPackWithPython h name) = Inl e) =
     (((\<not> pipHasPackage h name \<or> pipInstall h name \<noteq> None) \<and>
       (\<forall>done. setupPipPackSystem h name \<noteq> Some (Inr done))) \<or>
      isl (findBinDir h name))"
  apply (intro conjI)
  subgoal using setupLLVMOnly_fallback [of h err majorVersion info] by blast
  subgoal by (rule setupLLVMOnly_download_succeeds)
  subgoal by (rule setupLLVMOnly_fatal)
  subgoal using setupPipPackSystem_manager [of h name] by blast
  subgoal using setupPipPackSystem_manager [of h name] by blast
  subgoal using setupPipPackSystem_manager [of h name] by blast
  subgoal using setupPipPackSystem_manager [of h name] by blast
  subgoal using setupPipPack_not_found [of h name "done" dir] by blast
  subgoal using setupPipPack_failed [of h name err "done" dir] by blast
  subgoal using setupPipPack_exhausted [of h name err e] by blast
  subgoal using setupPipPack_exhausted [of h name err e] by blast
  subgoal using setupPipPack_exhausted [of h name err e] by blast
  subgoal using setupPipPack_after_install [of h name "done" e] by blast
  subgoal by (rule setupPipPack_fatal)
  done

theorem C6_witness:
  "setupLLVMOnly
     \<lparr>host_platform = ''linux'', isUbuntu = True, isArch = False, hasDnf = False,
      setupLLVMApt = Inl (Error ''apt failed''),
      setupBin = Inr \<lparr>binDir = ''/opt/llvm/bin'', installDir = Some ''/opt/llvm''\<rparr>,
      setupAptPack = (\<lambda>p. Inr \<lparr>binDir = ''/usr/bin'', installDir = None\<rparr>),
      setupPacmanPack = (\<lambda>p. Inl (Error ''no pacman'')),
      setupDnfPack = (\<lambda>p. Inl (Error ''no dnf'')),
      pip = ''pipx'', pipHasPackage = (\<lambda>p. False), pipInstall = (\<lambda>p. None),
      findBinDir = (\<lambda>p. Inr ''/usr/bin'')\<rparr> 12 =
     (Inr \<lparr>binDir = ''/opt/llvm/bin'', installDir = Some ''/opt/llvm''\<rparr>, [Error ''apt failed'']) \<and>
   setupPipPackWithPython
     \<lparr>host_platform = ''linux'', isUbuntu = True, isArch = False, hasDnf = False,
      setupLLVMApt = Inl (Error ''apt failed''),
      setupBin = Inr \<lparr>binDir = ''/opt/llvm/bin'', installDir = Some ''/opt/llvm''\<rparr>,
      setupAptPack = (\<lambda>p. Inr \<lparr>binDir = ''/usr/bin'', installDir = None\<rparr>),
      setupPacmanPack = (\<lambda>p. Inl (Error ''no pacman'')),
      setupDnfPack = (\<lambda>p. Inl (Error ''no dnf'')),
      pip = ''pipx'', pipHasPackage = (\<lambda>p. False), pipInstall = (\<lambda>p. None),
      findBinDir = (\<lambda>p. Inr ''/usr/bin'')\<rparr> ''cmake'' =
     (Inr \<lparr>binDir = ''/usr/bin'', installDir = None\<rparr>, []) \<and>
   setupPipPackWithPython
     \<lparr>host_platform = ''linux'', isUbuntu = True, isArch = False, hasDnf = False,
      setupLLVMApt = Inl (Error ''apt failed''),
      setupBin = Inr \<lparr>binDir = ''/opt/llvm/bin'', installDir = Some ''/opt/llvm''\<rparr>,
      setupAptPack = (\<lambda>p. Inr \<lparr>binDir = ''/usr/bin'', installDir = None\<rparr>),
      setupPacmanPack = (\<lambda>p. Inl (Error ''no pacman'')),
      setupDnfPack = (\<lambda>p. Inl (Error ''no dnf'')),
      pip = ''pipx'', pipHasPackage = (\<lambda>p. True),
      pipInstall = (\<lambda>p. Some (Error ''pip failed'')),
      findBinDir = (\<lambda>p. Inr ''/usr/bin'')\<rparr> ''cmake'' =
     (Inr \<lparr>binDir = ''/usr/bin'', installDir = None\<rparr>, [Error ''pip failed'']) \<and>
   setupPipPackWithPython
     \<lparr>host_platform = ''darwin'', isUbuntu = False, isArch = False, hasDnf = False,
      setupLLVMApt = Inl (Error ''apt failed''),
      setupBin = Inr \<lparr>binDir = ''/opt/llvm/bin'', installDir = Some ''/opt/llvm''\<rparr>,
      setupAptPack = (\<lambda>p. Inr \<lparr>binDir = ''/usr/bin'', installDir = None\<rparr>),
      setupPacmanPack = (\<lambda>p. Inl (Error ''no pacman'')),
      setupDnfPack = (\<lambda>p. Inl (Error ''no dnf'')),
      pip = ''pipx'', pipHasPackage = (\<lambda>p. False), pipInstall = (\<lambda>p. None),
      findBinDir = (\<lambda>p. Inr ''/usr/bin'')\<rparr> ''cmake'' =
     (Inl (Error ''Failed to install cmake as it was not found via pipx or the system package manager''),
      []) \<and>
   fst (setupPipPackWithPython
     \<lparr>host_platform = ''linux'', isUbuntu = False, isArch = True, hasDnf = False,
      setupLLVMApt = Inl (Error ''apt failed''),
      setupBin = Inr \<lparr>binDir = ''/opt/llvm/bin'', installDir = Some ''/opt/llvm''\<rparr>,
      setupAptPack = (\<lambda>p. Inr \<lparr>binDir = ''/usr/bin'', installDir = None\<rparr>),
      setupPacmanPack = (\<lambda>p. Inl (Error ''no pacman'')),
      setupDnfPack = (\<lambda>p. Inl (Error ''no dnf'')),
      pip = ''pipx'', pipHasPackage = (\<lambda>p. False), pipInstall = (\<lambda>p. None),
      findBinDir = (\<lambda>p. Inr ''/usr/bin'')\<rparr> ''cmake'') = Inl (Error ''no pacman'') \<and>
   fst (setupPipPackWithPython
     \<lparr>host_platform = ''linux'', isUbuntu = True, isArch = False, hasDnf = False,
      setupLLVMApt = Inl (Error ''apt failed''),
      setupBin = Inr \<lparr>binDir = ''/opt/llvm/bin'', installDir = Some ''/opt/llvm''\<rparr>,
      setupAptPack = (\<lambda>p. Inr \<lparr>binDir = ''/usr/bin'', installDir = None\<rparr>),
      setupPacmanPack = (\<lambda>p. Inl (Error ''no pacman'')),
      setupDnfPack = (\<lambda>p. Inl (Error ''no dnf'')),
      pip = ''pipx'', pipHasPackage = (\<lambda>p. True), pipInstall = (\<lambda>p. None),
      findBinDir = (\<lambda>p. Inl (Error ''addPath failed''))\<rparr> ''cmake'') = Inl (Error ''addPath failed'')"
proof -
  let ?h = "\<lparr>host_platform = ''linux'', isUbuntu = True, isArch = False, hasDnf = False,
      setupLLVMApt = Inl (Error ''apt failed''),
      setupBin = Inr \<lparr>binDir = ''/opt/llvm/bin'', installDir = Some ''/opt/llvm''\<rparr>,
      setupAptPack = (\<lambda>p. Inr \<lparr>binDir = ''/usr/bin'', installDir = None\<rparr>),
      setupPacmanPack = (\<lambda>p. Inl (Error ''no pacman'')),
      setupDnfPack = (\<lambda>p. Inl (Error ''no dnf'')),
      pip = ''pipx'', pipHasPackage = (\<lambda>p. False), pipInstall = (\<lambda>p. None),
      findBinDir = (\<lambda>p. Inr ''/usr/bin'')\<rparr>"
  let ?h2 = "\<lparr>host_platform = ''linux'', isUbuntu = True, isArch = False, hasDnf = False,
      setupLLVMApt = Inl (Error ''apt failed''),
      setupBin = Inr \<lparr>binDir = ''/opt/llvm/bin'', installDir = Some ''/opt/llvm''\<rparr>,
      setupAptPack = (\<lambda>p. Inr \<lparr>binDir = ''/usr/bin'', installDir = None\<rparr>),
      setupPacmanPack = (\<lambda>p. Inl (Error ''no pacman'')),
      setupDnfPack = (\<lambda>p. Inl (Error ''no dnf'')),
      pip = ''pipx'', pipHasPackage = (\<lambda>p. True),
      pipInstall = (\<lambda>p. Some (Error ''pip failed'')),
      findBinDir = (\<lambda>p. Inr ''/usr/bin'')\<rparr>"
  let ?h3 = "\<lparr>host_platform = ''darwin'', isUbuntu = False, isArch = False, hasDnf = False,
      setupLLVMApt = Inl (Error ''apt failed''),
      setupBin = Inr \<lparr>binDir = ''/opt/llvm/bin'', installDir = Some ''/opt/llvm''\<rparr>,
      setupAptPack = (\<lambda>p. Inr \<lparr>binDir = ''/usr/bin'', installDir = None\<rparr>),
      setupPacmanPack = (\<lambda>p. Inl (Error ''no pacman'')),
      setupDnfPack = (\<lambda>p. Inl (Error ''no dnf'')),
      pip = ''pipx'', pipHasPackage = (\<lambda>p. False), pipInstall = (\<lambda>p. None),
      findBinDir = (\<lambda>p. Inr ''/usr/bin'')\<rparr>"
  let ?h4 = "\<lparr>host_platform = ''linux'', isUbuntu = False, isArch = True, hasDnf = False,
      setupLLVMApt = Inl (Error ''apt failed''),
      setupBin = Inr \<lparr>binDir = ''/opt/llvm/bin'', installDir = Some ''/opt/llvm''\<rparr>,
      setupAptPack = (\<lambda>p. Inr \<lparr>binDir = ''/usr/bin'', installDir = None\<rparr>),
      setupPacmanPack = (\<lambda>p. Inl (Error ''no pacman'')),
      setupDnfPack = (\<lambda>p. Inl (Error ''no dnf'')),
      pip = ''pipx'', pipHasPackage = (\<lambda>p. False), pipInstall = (\<lambda>p. None),
      findBinDir = (\<lambda>p. Inr ''/usr/bin'')\<rparr>"
  let ?h5 = "\<lparr>host_platform = ''linux'', isUbuntu = True, isArch = False, hasDnf = False,
      setupLLVMApt = Inl (Error ''apt failed''),
      setupBin = Inr \<lparr>binDir = ''/opt/llvm/bin'', installDir = Some ''/opt/llvm''\<rparr>,
      setupAptPack = (\<lambda>p. Inr \<lparr>binDir = ''/usr/bin'', installDir = None\<rparr>),
      setupPacmanPack = (\<lambda>p. Inl (Error ''no pacman'')),
      setupDnfPack = (\<lambda>p. Inl (Error ''no dnf'')),
      pip = ''pipx'', pipHasPackage = (\<lambda>p. True), pipInstall = (\<lambda>p. None),
      findBinDir = (\<lambda>p. Inl (Error ''addPath failed''))\<rparr>"
  let ?apt = "\<lparr>binDir = ''/usr/bin'', installDir = None\<rparr>"
  have a: "(\<not> isUbuntu ?h \<or> setupLLVMApt ?h = Inl (Error ''apt failed'')) \<and>
           fst (setupLLVMOnly_download ?h 12 []) =
             Inr \<lparr>binDir = ''/opt/llvm/bin'', installDir = Some ''/opt/llvm''\<rparr>"
    by (simp add: setupLLVMOnly_download_def llvmBinaryDeps_def)
  have u: "isUbuntu ?h"
    by simp
  from a u
    C6_failures_fall_back [of ?h "Error ''apt failed''" 12
      "\<lparr>binDir = ''/opt/llvm/bin'', installDir = Some ''/opt/llvm''\<rparr>"]
  have 1: "setupLLVMOnly ?h 12 =
     (Inr \<lparr>binDir = ''/opt/llvm/bin'', installDir = Some ''/opt/llvm''\<rparr>, [Error ''apt failed''])"
    by presburger
  have b: "host_platform ?h = ''linux'' \<and> \<not> isArch ?h \<and> \<not> hasDnf ?h \<and> isUbuntu ?h \<and>
           setupAptPack ?h (''python3-'' @ ''cmake'') = Inr ?apt \<and>
           \<not> pipHasPackage ?h ''cmake'' \<and> findBinDir ?h ''cmake'' = Inr ''/usr/bin''"
    by simp
  from b C6_failures_fall_back [of ?h _ _ _ "''cmake''" ?apt "''/usr/bin''"]
  have 2: "setupPipPackWithPython ?h ''cmake'' = (Inr ?apt, [])"
    by metis
  have c: "host_platform ?h2 = ''linux'' \<and> \<not> isArch ?h2 \<and> \<not> hasDnf ?h2 \<and> isUbuntu ?h2 \<and>
           setupAptPack ?h2 (''python3-'' @ ''cmake'') = Inr ?apt \<and>
           pipHasPackage ?h2 ''cmake'' \<and> pipInstall ?h2 ''cmake'' = Some (Error ''pip failed'') \<and>
           findBinDir ?h2 ''cmake'' = Inr ''/usr/bin''"
    by simp
  from c C6_failures_fall_back [of ?h2 "Error ''pip failed''" _ _ "''cmake''" ?apt "''/usr/bin''"]
  have 3: "setupPipPackWithPython ?h2 ''cmake'' = (Inr ?apt, [Error ''pip failed''])"
    by metis
  have d: "host_platform ?h3 \<noteq> ''linux'' \<and> \<not> pipHasPackage ?h3 ''cmake'' \<and> pip ?h3 = ''pipx''"
    by simp
  from d C6_failures_fall_back [of ?h3 _ _ _ "''cmake''"]
  have "setupPipPackWithPython ?h3 ''cmake'' =
        (Inl (Error (''Failed to install '' @ ''cmake'' @ '' as it was not found via '' @ pip ?h3 @
                     '' or the system package manager'')), [])"
    by metis
  then have 4: "setupPipPackWithPython ?h3 ''cmake'' =
     (Inl (Error ''Failed to install cmake as it was not found via pipx or the system package manager''),
      [])"
    by simp
  have e: "host_platform ?h4 = ''linux'' \<and> isArch ?h4 \<and> \<not> pipHasPackage ?h4 ''cmake'' \<and>
           setupPacmanPack ?h4 (''python-'' @ ''cmake'') = Inl (Error ''no pacman'')"
    by simp
  from e C6_failures_fall_back [of ?h4 _ _ _ "''cmake''" _ _ "Error ''no pacman''"]
  have 5: "fst (setupPipPackWithPython ?h4 ''cmake'') = Inl (Error ''no pacman'')"
    by metis
  have f: "pipHasPackage ?h5 ''cmake'' \<and> pipInstall ?h5 ''cmake'' = None \<and>
           findBinDir ?h5 ''cmake'' = Inl (Error ''addPath failed'')"
    by simp
  from f C6_failures_fall_back [of ?h5 _ _ _ "''cmake''" _ _ "Error ''addPath failed''"]
  have 6: "fst (setupPipPackWithPython ?h5 ''cmake'') = Inl (Error ''addPath failed'')"
    by metis
  from 1 2 3 4 5 6 show ?thesis by blast
qed

text \<open>
  The claim as stated fails: pip finds the package and installs it, so no strategy has
  failed and the chain is not exhausted, and yet the function throws, because the lookup
  of the directory after the installation throws.
\<close>

theorem C6_counterexample:
  "pipHasPackage
     \<lparr>host_platform = ''linux'', isUbuntu = True, isArch = False, hasDnf = False,
      setupLLVMApt = Inl (Error ''apt failed''),
      setupBin = Inr \<lparr>binDir = ''/opt/llvm/bin'', installDir = Some ''/opt/llvm''\<rparr>,
      setupAptPack = (\<lambda>p. Inr \<lparr>binDir = ''/usr/bin'', installDir = None\<rparr>),
      setupPacmanPack = (\<lambda>p. Inl (Error ''no pacman'')),
      setupDnfPack = (\<lambda>p. Inl (Error ''no dnf'')),
      pip = ''pipx'', pipHasPackage = (\<lambda>p. True), pipInstall = (\<lambda>p. None),
      findBinDir = (\<lambda>p. Inl (Error ''addPath failed''))\<rparr> ''cmake'' \<and>
   pipInstall
     \<lparr>host_platform = ''linux'', isUbuntu = True, isArch = False, hasDnf = False,
      setupLLVMApt = Inl (Error ''apt failed''),
      setupBin = Inr \<lparr>binDir = ''/opt/llvm/bin'', installDir = Some ''/opt/llvm''\<rparr>,
      setupAptPack = (\<lambda>p. Inr \<lparr>binDir = ''/usr/bin'', installDir = None\<rparr>),
      setupPacmanPack = (\<lambda>p. Inl (Error ''no pacman'')),
      setupDnfPack = (\<lambda>p. Inl (Error ''no dnf'')),
      pip = ''pipx'', pipHasPackage = (\<lambda>p. True), pipInstall = (\<lambda>p. None),
      findBinDir = (\<lambda>p. Inl (Error ''addPath failed''))\<rparr> ''cmake'' = None \<and>
   fst (setupPipPackWithPython
     \<lparr>host_platform = ''linux'', isUbuntu = True, isArch = False, hasDnf = False,
      setupLLVMApt = Inl (Error ''apt failed''),
      setupBin = Inr \<lparr>binDir = ''/opt/llvm/bin'', installDir = Some ''/opt/llvm''\<rparr>,
      setupAptPack = (\<lambda>p. Inr \<lparr>binDir = ''/usr/bin'', installDir = None\<rparr>),
      setupPacmanPack = (\<lambda>p. Inl (Error ''no pacman'')),
      setupDnfPack = (\<lambda>p. Inl (Error ''no dnf'')),
      pip = ''pipx'', pipHasPackage = (\<lambda>p. True), pipInstall = (\<lambda>p. None),
      findBinDir = (\<lambda>p. Inl (Error ''addPath failed''))\<rparr> ''cmake'') = Inl (Error ''addPath failed'')"
  by (simp add: setupPipPackWithPython_def setupPipPack_finish_def)

section \<open>Claims about work that is done once\<close>

lemma setupBrew_success_state:
  assumes "setupBrew platform arch c s = (Inr (Some dir), s')"
  shows "platform \<in> {''darwin'', ''linux''} \<and> brew_binDir s' = Some dir"
  using assms
  by (auto simp: setupBrew_def split: if_splits option.splits sum.splits)

lemma setupBrew_cached:
  assumes "platform \<in> {''darwin'', ''linux''}" and "brew_binDir s = Some dir"
  shows "setupBrew platform arch c s = (Inr (Some dir), s)"
  using assms by (auto simp: setupBrew_def)

lemma setupBrew_calls_cached:
  assumes "platform \<in> {''darwin'', ''linux''}" and "brew_binDir s = Some dir"
  shows "setupBrew_calls platform arch cs s = (replicate (length cs) (Inr (Some dir)), s)"
  using assms by (induction cs) (simp_all add: setupBrew_cached)

lemma memoized_success_cached:
  assumes "0 < maxSize" and "memoized maxSize fn key w m = (Inr v, m')"
  shows "map_of (cache m') key = Some v"
proof (cases "map_of (cache m) key")
  case None
  with assms show ?thesis
    by (cases maxSize) (auto simp: memoized_def split: sum.splits)
next
  case (Some v')
  with assms show ?thesis
    by (auto simp: memoized_def)
qed

lemma memoized_hit:
  assumes "map_of (cache m) key = Some v"
  shows "fst (memoized maxSize fn key w m) = Inr v \<and>
         producer_calls (snd (memoized maxSize fn key w m)) = producer_calls m"
  using assms by (simp add: memoized_def)

text \<open>
  C4, as amended. After a call of \<open>setupBrew\<close> that returned a directory, every later
  call returns the same directory and leaves the state as it is, so the installer is not
  run again, however many calls follow. After a call of a memoized function that
  returned a result, the next call with the same key returns the same result and does
  not call the producer, for every cache size of at least 1.
\<close>

theorem C4_second_call_after_success:
  "(setupBrew platform arch c1 s = (Inr (Some dir), s1) \<longrightarrow>
      setupBrew platform arch c2 s1 = (Inr (Some dir), s1) \<and>
      setupBrew_calls platform arch cs s1 = (replicate (length cs) (Inr (Some dir)), s1)) \<and>
   (0 < maxSize \<and> memoized maxSize fn key w1 m = (Inr v, m1) \<longrightarrow>
      fst (memoized maxSize fn key w2 m1) = Inr v \<and>
      producer_calls (snd (memoized maxSize fn key w2 m1)) = producer_calls m1)"
  using setupBrew_success_state [of platform arch c1 s dir s1]
    setupBrew_cached [of platform s1 dir arch c2]
    setupBrew_calls_cached [of platform s1 dir arch cs]
    memoized_success_cached [of maxSize fn key w1 m v m1]
    memoized_hit [of m1 key v maxSize fn w2]
  by blast

theorem C4_witness:
  "setupBrew ''linux'' ''x64''
     \<lparr>which_brew = None, download = None, installer = None, addPath = None\<rparr>
     \<lparr>brew_binDir = None, installer_runs = 0\<rparr> =
     (Inr (Some ''/home/linuxbrew/.linuxbrew/bin/''),
      \<lparr>brew_binDir = Some ''/home/linuxbrew/.linuxbrew/bin/'', installer_runs = 1\<rparr>) \<and>
   setupBrew ''linux'' ''x64''
     \<lparr>which_brew = None, download = None, installer = None, addPath = None\<rparr>
     \<lparr>brew_binDir = Some ''/home/linuxbrew/.linuxbrew/bin/'', installer_runs = 1\<rparr> =
     (Inr (Some ''/home/linuxbrew/.linuxbrew/bin/''),
      \<lparr>brew_binDir = Some ''/home/linuxbrew/.linuxbrew/bin/'', installer_runs = 1\<rparr>) \<and>
   memoized 1 (\<lambda>k w. Inr (k @ ''/bin'')) ''llvm'' () \<lparr>cache = [], producer_calls = []\<rparr> =
     (Inr ''llvm/bin'', \<lparr>cache = [(''llvm'', ''llvm/bin'')], producer_calls = [''llvm'']\<rparr>) \<and>
   fst (memoized 1 (\<lambda>k w. Inr (k @ ''/bin'')) ''llvm'' ()
          \<lparr>cache = [(''llvm'', ''llvm/bin'')], producer_calls = [''llvm'']\<rparr>) = Inr ''llvm/bin'' \<and>
   producer_calls (snd (memoized 1 (\<lambda>k w. Inr (k @ ''/bin'')) ''llvm'' ()
          \<lparr>cache = [(''llvm'', ''llvm/bin'')], producer_calls = [''llvm'']\<rparr>)) = [''llvm'']"
proof -
  let ?c = "\<lparr>which_brew = None, download = None, installer = None, addPath = None\<rparr>"
  let ?s1 = "\<lparr>brew_binDir = Some ''/home/linuxbrew/.linuxbrew/bin/'', installer_runs = 1\<rparr>"
  let ?fn = "\<lambda>(k::string) (w::unit). (Inr (k @ ''/bin'') :: error + string)"
  let ?m1 = "\<lparr>cache = [(''llvm'', ''llvm/bin'')], producer_calls = [''llvm'']\<rparr>"
  have a: "setupBrew ''linux'' ''x64'' ?c \<lparr>brew_binDir = None, installer_runs = 0\<rparr> =
           (Inr (Some ''/home/linuxbrew/.linuxbrew/bin/''), ?s1)"
    by (simp add: setupBrew_def getBrewPath_def)
  have b: "(0::nat) < 1 \<and>
           memoized 1 ?fn ''llvm'' () \<lparr>cache = [], producer_calls = []\<rparr> = (Inr ''llvm/bin'', ?m1)"
    by (simp add: memoized_def)
  note t = C4_second_call_after_success
    [of "''linux''" "''x64''" ?c "\<lparr>brew_binDir = None, installer_runs = 0\<rparr>"
        "''/home/linuxbrew/.linuxbrew/bin/''" ?s1 ?c "[]" 1 ?fn "''llvm''" "()"
        "\<lparr>cache = [], producer_calls = []\<rparr>" "''llvm/bin''" ?m1 "()"]
  have 1: "setupBrew ''linux'' ''x64'' ?c ?s1 = (Inr (Some ''/home/linuxbrew/.linuxbrew/bin/''), ?s1)"
    using a t by blast
  have 2: "fst (memoized 1 ?fn ''llvm'' () ?m1) = Inr ''llvm/bin'' \<and>
           producer_calls (snd (memoized 1 ?fn ''llvm'' () ?m1)) = [''llvm'']"
    using b t by simp
  from a b 1 2 show ?thesis by blast
qed

text \<open>
  The claim as stated fails in two ways. A call of \<open>setupBrew\<close> whose installer script
  throws leaves \<open>binDir\<close> unset, and the next call runs the installer again. And the
  cache of \<open>setupLLVMWithoutActivation\<close> holds one entry: after a call with a second key,
  a call with the first key calls the producer again.
\<close>

theorem C4_counterexample:
  "\<not> installer_runs
       (snd (setupBrew ''linux'' ''x64''
               \<lparr>which_brew = None, download = None, installer = None, addPath = None\<rparr>
               (snd (setupBrew ''linux'' ''x64''
                       \<lparr>which_brew = None, download = None,
                        installer = Some (Error ''Command failed''), addPath = None\<rparr>
                       \<lparr>brew_binDir = None, installer_runs = 0\<rparr>)))) \<le> 1 \<and>
   \<not> count_list
       (producer_calls
          (snd (setupLLVMWithoutActivation (\<lambda>k w. Inr \<lparr>binDir = ''/bin'', installDir = None\<rparr>)
                  (''12'', ''/a'', ''x64'') ()
                  (snd (setupLLVMWithoutActivation
                          (\<lambda>k w. Inr \<lparr>binDir = ''/bin'', installDir = None\<rparr>)
                          (''13'', ''/a'', ''x64'') ()
                          (snd (setupLLVMWithoutActivation
                                  (\<lambda>k w. Inr \<lparr>binDir = ''/bin'', installDir = None\<rparr>)
                                  (''12'', ''/a'', ''x64'') ()
                                  \<lparr>cache = [], producer_calls = []\<rparr>)))))))
       (''12'', ''/a'', ''x64'') \<le> 1"
  by (simp add: setupBrew_def getBrewPath_def setupLLVMWithoutActivation_def memoized_def
      DEFAULT_MAX_SIZE_def)

section \<open>Claims about the activation of the environment\<close>

lemma activateLLVM_eq:
  "activateLLVM delimiter addExeExt platform xcrun directory e =
   setupMacOSSDK platform xcrun
     (e(''LLVM_PATH'' \<mapsto> directory,
        ''LD_LIBRARY_PATH'' \<mapsto>
          directory @ ''/lib'' @ delimiter @ (case e ''LD_LIBRARY_PATH'' of Some v \<Rightarrow> v | None \<Rightarrow> []),
        ''DYLD_LIBRARY_PATH'' \<mapsto>
          directory @ ''/lib'' @ delimiter @ (case e ''DYLD_LIBRARY_PATH'' of Some v \<Rightarrow> v | None \<Rightarrow> []),
        ''LDFLAGS'' \<mapsto> ''-L'' @ [CHR 0x22] @ directory @ ''/lib'' @ [CHR 0x22],
        ''CPPFLAGS'' \<mapsto> ''-I'' @ [CHR 0x22] @ directory @ ''/include'' @ [CHR 0x22],
        ''CC'' \<mapsto> addExeExt (directory @ ''/bin/clang''),
        ''CXX'' \<mapsto> addExeExt (directory @ ''/bin/clang++''),
        ''LIBRARY_PATH'' \<mapsto> directory @ ''/lib''))"
  by (simp add: activateLLVM_def addEnv_def Let_def)

lemma setupMacOSSDK_other:
  "name \<noteq> ''SDKROOT'' \<Longrightarrow> setupMacOSSDK platform xcrun e name = e name"
  by (simp add: setupMacOSSDK_def addEnv_def split: sum.splits)

lemma activateLLVM_LD:
  "activateLLVM delimiter addExeExt platform xcrun directory e ''LD_LIBRARY_PATH'' =
   Some (directory @ ''/lib'' @ delimiter @ (case e ''LD_LIBRARY_PATH'' of Some v \<Rightarrow> v | None \<Rightarrow> []))"
  by (simp add: activateLLVM_eq setupMacOSSDK_other)

lemma activateLLVM_DYLD:
  "activateLLVM delimiter addExeExt platform xcrun directory e ''DYLD_LIBRARY_PATH'' =
   Some (directory @ ''/lib'' @ delimiter @ (case e ''DYLD_LIBRARY_PATH'' of Some v \<Rightarrow> v | None \<Rightarrow> []))"
  by (simp add: activateLLVM_eq setupMacOSSDK_other)

lemma activateLLVM_fixed:
  assumes "name \<noteq> ''LD_LIBRARY_PATH''" and "name \<noteq> ''DYLD_LIBRARY_PATH''"
  shows "activateLLVM delimiter addExeExt platform xcrun directory
           (activateLLVM delimiter addExeExt platform xcrun directory e) name =
         activateLLVM delimiter addExeExt platform xcrun directory e name"
proof (cases "name = ''SDKROOT''")
  case True
  then show ?thesis
    by (simp add: activateLLVM_eq setupMacOSSDK_def addEnv_def split: sum.splits)
next
  case False
  with assms show ?thesis
    by (simp add: activateLLVM_eq setupMacOSSDK_other)
qed

lemma fold_set_add_set: "set (fold (\<lambda>x s. set_add s x) xs acc) = set acc \<union> set xs"
  by (induction xs arbitrary: acc) (auto simp: set_add_def)

lemma fold_set_add_distinct:
  "distinct acc \<Longrightarrow> distinct (fold (\<lambda>x s. set_add s x) xs acc)"
  by (induction xs arbitrary: acc) (auto simp: set_add_def)

lemma fold_set_add_fresh:
  "distinct xs \<Longrightarrow> set xs \<inter> set acc = {} \<Longrightarrow> fold (\<lambda>x s. set_add s x) xs acc = acc @ xs"
  by (induction xs arbitrary: acc) (auto simp: set_add_def)

lemma new_Set_set: "set (new_Set xs) = set xs"
  by (simp add: new_Set_def fold_set_add_set)

lemma new_Set_distinct: "distinct (new_Set xs)"
  by (simp add: new_Set_def fold_set_add_distinct)

lemma new_Set_of_distinct: "distinct xs \<Longrightarrow> new_Set xs = xs"
  by (simp add: new_Set_def fold_set_add_fresh)

lemma new_Set_snoc:
  "new_Set (xs @ [x]) = (if x \<in> set xs then new_Set xs else new_Set xs @ [x])"
proof -
  have "new_Set (xs @ [x]) = set_add (new_Set xs) x"
    by (simp add: new_Set_def)
  then show ?thesis
    by (simp add: set_add_def new_Set_set)
qed

lemma new_Set_Nil: "new_Set [] = []"
  by (simp add: new_Set_def)

lemma new_Set_remdups: "new_Set xs = rev (remdups (rev xs))"
  by (induction xs rule: rev_induct) (simp_all add: new_Set_snoc new_Set_Nil)

lemma uniqueEntries_remdups: "rev (new_Set (rev entries)) = remdups entries"
  by (simp add: new_Set_remdups)

lemma remdups_last_occurrences:
  "remdups xs = map (\<lambda>i. xs ! i) (filter (\<lambda>i. xs ! i \<notin> set (drop (Suc i) xs)) [0..<length xs])"
proof (induction xs)
  case Nil
  then show ?case by simp
next
  case (Cons x xs)
  have "[0..<length (x # xs)] = 0 # map Suc [0..<length xs]"
    by (simp add: upt_conv_Cons map_Suc_upt del: upt_Suc)
  then show ?case
    using Cons by (simp add: filter_map o_def del: upt_Suc)
qed

lemma split_on_nonempty: "split_on sep s \<noteq> []"
  by (induction s) (auto split: list.splits)

lemma split_on_no_sep: "w \<in> set (split_on sep s) \<Longrightarrow> sep \<notin> set w"
proof (induction s arbitrary: w)
  case Nil
  then show ?case by simp
next
  case (Cons c s)
  then show ?case
    by (cases "split_on sep s") (auto simp: split_on_nonempty split: if_splits)
qed

lemma split_on_append_no_sep:
  "sep \<notin> set x \<Longrightarrow> split_on sep (x @ sep # rest) = x # split_on sep rest"
  by (induction x) (auto split: list.splits)

lemma split_on_single: "sep \<notin> set x \<Longrightarrow> split_on sep x = [x]"
  by (induction x) (auto split: list.splits)

lemma split_on_join:
  "xs \<noteq> [] \<Longrightarrow> \<forall>w\<in>set xs. sep \<notin> set w \<Longrightarrow> split_on sep (join [sep] xs) = xs"
proof (induction "[sep]" xs rule: join.induct)
  case 1
  then show ?case by simp
next
  case (2 x)
  then show ?case by (simp add: split_on_single)
next
  case (3 x y ys)
  then show ?case by (simp add: split_on_append_no_sep)
qed

lemma uniqueEntries_props:
  fixes entries :: "string list"
  defines "u \<equiv> rev (new_Set (rev entries))"
  shows "distinct u" and "set u = set entries" and "rev (new_Set (rev u)) = u"
proof -
  show "distinct u" by (simp add: u_def new_Set_distinct)
  show "set u = set entries" by (simp add: u_def new_Set_set)
  show "rev (new_Set (rev u)) = u"
    by (simp add: u_def new_Set_of_distinct new_Set_distinct)
qed

lemma finalizeRC_split:
  "finalizeRC (Some content) = Some out \<Longrightarrow>
   split_on CHR 0x0A out = rev (new_Set (rev (split_on CHR 0x0A content)))"
proof -
  assume a: "finalizeRC (Some content) = Some out"
  let ?u = "rev (new_Set (rev (split_on CHR 0x0A content)))"
  have ne: "?u \<noteq> []"
    using uniqueEntries_props(2) [of "split_on CHR 0x0A content"] split_on_nonempty
    by (metis set_empty)
  have ns: "\<forall>w\<in>set ?u. CHR 0x0A \<notin> set w"
    using uniqueEntries_props(2) [of "split_on CHR 0x0A content"] split_on_no_sep by blast
  from a have "out = join [CHR 0x0A] ?u"
    by (simp add: finalizeRC_def Let_def)
  with ne ns show ?thesis
    by (simp add: split_on_join)
qed

lemma finalizeRC_idem: "finalizeRC (finalizeRC rc) = finalizeRC rc"
proof (cases rc)
  case None
  then show ?thesis by (simp add: finalizeRC_def)
next
  case (Some content)
  let ?u = "rev (new_Set (rev (split_on CHR 0x0A content)))"
  have f: "finalizeRC (Some content) = Some (join [CHR 0x0A] ?u)"
    by (simp add: finalizeRC_def Let_def)
  have "split_on CHR 0x0A (join [CHR 0x0A] ?u) = ?u"
    using finalizeRC_split [OF f] .
  then have "finalizeRC (Some (join [CHR 0x0A] ?u)) = Some (join [CHR 0x0A] ?u)"
    by (simp add: finalizeRC_def Let_def new_Set_of_distinct new_Set_distinct)
  with Some f show ?thesis by simp
qed

text \<open>
  C5, as amended. A second activation for the same directory leaves every variable other
  than \<open>LD_LIBRARY_PATH\<close> and \<open>DYLD_LIBRARY_PATH\<close> as the first activation set it. Each
  activation puts \<open>directory/lib\<close> and the delimiter in front of the value that these two
  variables have at that time, so the second activation adds the segment once more.
  \<open>finalizeRC\<close> is idempotent: it keeps one copy of every line of the rc file, the last
  occurrence of the line, that is, it deletes exactly the lines that occur again further
  down and keeps the others in their order, and a second run changes nothing.
\<close>

theorem C5_activation_twice:
  "(name \<noteq> ''LD_LIBRARY_PATH'' \<and> name \<noteq> ''DYLD_LIBRARY_PATH'' \<longrightarrow>
      activateLLVM delimiter addExeExt platform xcrun directory
        (activateLLVM delimiter addExeExt platform xcrun directory e) name =
      activateLLVM delimiter addExeExt platform xcrun directory e name) \<and>
   activateLLVM delimiter addExeExt platform xcrun directory
     (activateLLVM delimiter addExeExt platform xcrun directory e) ''LD_LIBRARY_PATH'' =
     Some (directory @ ''/lib'' @ delimiter @ directory @ ''/lib'' @ delimiter @
           (case e ''LD_LIBRARY_PATH'' of Some v \<Rightarrow> v | None \<Rightarrow> [])) \<and>
   activateLLVM delimiter addExeExt platform xcrun directory
     (activateLLVM delimiter addExeExt platform xcrun directory e) ''DYLD_LIBRARY_PATH'' =
     Some (directory @ ''/lib'' @ delimiter @ directory @ ''/lib'' @ delimiter @
           (case e ''DYLD_LIBRARY_PATH'' of Some v \<Rightarrow> v | None \<Rightarrow> [])) \<and>
   finalizeRC (finalizeRC rc) = finalizeRC rc \<and>
   (finalizeRC (Some content) = Some out \<longrightarrow>
      distinct (split_on CHR 0x0A out) \<and>
      set (split_on CHR 0x0A out) = set (split_on CHR 0x0A content) \<and>
      split_on CHR 0x0A out = remdups (split_on CHR 0x0A content) \<and>
      split_on CHR 0x0A out =
        map (\<lambda>i. split_on CHR 0x0A content ! i)
          (filter
             (\<lambda>i. split_on CHR 0x0A content ! i \<notin> set (drop (Suc i) (split_on CHR 0x0A content)))
             [0..<length (split_on CHR 0x0A content)]))"
proof (intro conjI impI)
  assume "name \<noteq> ''LD_LIBRARY_PATH'' \<and> name \<noteq> ''DYLD_LIBRARY_PATH''"
  then show "activateLLVM delimiter addExeExt platform xcrun directory
        (activateLLVM delimiter addExeExt platform xcrun directory e) name =
      activateLLVM delimiter addExeExt platform xcrun directory e name"
    by (simp add: activateLLVM_fixed)
next
  show "activateLLVM delimiter addExeExt platform xcrun directory
     (activateLLVM delimiter addExeExt platform xcrun directory e) ''LD_LIBRARY_PATH'' =
     Some (directory @ ''/lib'' @ delimiter @ directory @ ''/lib'' @ delimiter @
           (case e ''LD_LIBRARY_PATH'' of Some v \<Rightarrow> v | None \<Rightarrow> []))"
    by (simp add: activateLLVM_LD)
next
  show "activateLLVM delimiter addExeExt platform xcrun directory
     (activateLLVM delimiter addExeExt platform xcrun directory e) ''DYLD_LIBRARY_PATH'' =
     Some (directory @ ''/lib'' @ delimiter @ directory @ ''/lib'' @ delimiter @
           (case e ''DYLD_LIBRARY_PATH'' of Some v \<Rightarrow> v | None \<Rightarrow> []))"
    by (simp add: activateLLVM_DYLD)
next
  show "finalizeRC (finalizeRC rc) = finalizeRC rc"
    by (rule finalizeRC_idem)
next
  assume a: "finalizeRC (Some content) = Some out"
  show "distinct (split_on CHR 0x0A out)"
    unfolding finalizeRC_split [OF a] by (rule uniqueEntries_props(1))
  show "set (split_on CHR 0x0A out) = set (split_on CHR 0x0A content)"
    unfolding finalizeRC_split [OF a] by (rule uniqueEntries_props(2))
  show r: "split_on CHR 0x0A out = remdups (split_on CHR 0x0A content)"
    unfolding finalizeRC_split [OF a] by (rule uniqueEntries_remdups)
  show "split_on CHR 0x0A out =
        map (\<lambda>i. split_on CHR 0x0A content ! i)
          (filter
             (\<lambda>i. split_on CHR 0x0A content ! i \<notin> set (drop (Suc i) (split_on CHR 0x0A content)))
             [0..<length (split_on CHR 0x0A content)])"
    unfolding r by (rule remdups_last_occurrences)
qed

theorem C5_witness:
  "activateLLVM '':'' (\<lambda>p. p) ''linux'' (Inr []) ''/opt/llvm''
     (activateLLVM '':'' (\<lambda>p. p) ''linux'' (Inr []) ''/opt/llvm'' Map.empty) ''CC'' =
     Some ''/opt/llvm/bin/clang'' \<and>
   finalizeRC (Some (''a'' @ [CHR 0x0A] @ ''b'' @ [CHR 0x0A] @ ''a'')) =
     Some (''b'' @ [CHR 0x0A] @ ''a'') \<and>
   distinct (split_on CHR 0x0A (''b'' @ [CHR 0x0A] @ ''a'')) \<and>
   split_on CHR 0x0A (''b'' @ [CHR 0x0A] @ ''a'') =
     remdups (split_on CHR 0x0A (''a'' @ [CHR 0x0A] @ ''b'' @ [CHR 0x0A] @ ''a''))"
proof -
  let ?A = "activateLLVM '':'' (\<lambda>p. p) ''linux'' (Inr []) ''/opt/llvm''"
  have n: "''CC'' \<noteq> ''LD_LIBRARY_PATH'' \<and> ''CC'' \<noteq> ''DYLD_LIBRARY_PATH''"
    by simp
  have o: "?A Map.empty ''CC'' = Some ''/opt/llvm/bin/clang''"
    by (simp add: activateLLVM_eq setupMacOSSDK_def)
  have f: "finalizeRC (Some (''a'' @ [CHR 0x0A] @ ''b'' @ [CHR 0x0A] @ ''a'')) =
           Some (''b'' @ [CHR 0x0A] @ ''a'')"
    by (simp add: finalizeRC_def new_Set_def set_add_def)
  note t = C5_activation_twice
    [of "''CC''" "'':''" "\<lambda>p. p" "''linux''" "Inr []" "''/opt/llvm''" Map.empty _
        "''a'' @ [CHR 0x0A] @ ''b'' @ [CHR 0x0A] @ ''a''" "''b'' @ [CHR 0x0A] @ ''a''"]
  have 1: "?A (?A Map.empty) ''CC'' = Some ''/opt/llvm/bin/clang''"
    using n o t by simp
  have 2: "distinct (split_on CHR 0x0A (''b'' @ [CHR 0x0A] @ ''a''))"
    using f t by blast
  have 3: "split_on CHR 0x0A (''b'' @ [CHR 0x0A] @ ''a'') =
           remdups (split_on CHR 0x0A (''a'' @ [CHR 0x0A] @ ''b'' @ [CHR 0x0A] @ ''a''))"
    using f t by blast
  from 1 f 2 3 show ?thesis by blast
qed

text \<open>
  The claim as stated fails: from an empty environment, one activation for \<open>/opt/llvm\<close>
  sets \<open>LD_LIBRARY_PATH\<close> to \<open>/opt/llvm/lib:\<close> and a second one to
  \<open>/opt/llvm/lib:/opt/llvm/lib:\<close>, so the two environments differ and the segment is
  there twice.
\<close>

theorem C5_counterexample:
  "activateLLVM '':'' (\<lambda>p. p) ''linux'' (Inr []) ''/opt/llvm'' Map.empty ''LD_LIBRARY_PATH'' =
     Some ''/opt/llvm/lib:'' \<and>
   activateLLVM '':'' (\<lambda>p. p) ''linux'' (Inr []) ''/opt/llvm''
     (activateLLVM '':'' (\<lambda>p. p) ''linux'' (Inr []) ''/opt/llvm'' Map.empty) ''LD_LIBRARY_PATH'' =
     Some ''/opt/llvm/lib:/opt/llvm/lib:'' \<and>
   activateLLVM '':'' (\<lambda>p. p) ''linux'' (Inr []) ''/opt/llvm''
     (activateLLVM '':'' (\<lambda>p. p) ''linux'' (Inr []) ''/opt/llvm'' Map.empty) \<noteq>
   activateLLVM '':'' (\<lambda>p. p) ''linux'' (Inr []) ''/opt/llvm'' Map.empty"
proof -
  let ?A = "activateLLVM '':'' (\<lambda>p. p) ''linux'' (Inr []) ''/opt/llvm''"
  have 1: "?A Map.empty ''LD_LIBRARY_PATH'' = Some ''/opt/llvm/lib:''"
    by (simp add: activateLLVM_LD)
  have 2: "?A (?A Map.empty) ''LD_LIBRARY_PATH'' = Some ''/opt/llvm/lib:/opt/llvm/lib:''"
    by (simp add: activateLLVM_LD)
  have "?A (?A Map.empty) ''LD_LIBRARY_PATH'' \<noteq> ?A Map.empty ''LD_LIBRARY_PATH''"
    unfolding 1 2 by simp
  then have 3: "?A (?A Map.empty) \<noteq> ?A Map.empty"
    by metis
  from 1 2 3 show ?thesis by blast
qed

end
